theory Spec2Isabelle
  imports Complex_Main "HOL-Library.Log_Nat"
begin

section \<open>The SpriteFX pipeline of \<^verbatim>\<open>src/renderer/webgl/pipelines/SpriteFXPipeline.js\<close>\<close>

text \<open>
  The sizes, the viewport and the render target dimensions are \<^typ>\<open>real\<close> here: the
  numbers the code computes, taken exactly. Reading a property of \<^verbatim>\<open>undefined\<close> or
  \<^verbatim>\<open>null\<close> throws, which is the error \<open>TypeError\<close>. With a zero increment \<^verbatim>\<open>boot\<close>
  divides by zero; JavaScript does not throw but goes on with an infinity or with
  \<^verbatim>\<open>NaN\<close>, and the model stops there with the error \<open>NotFinite\<close>.

  The texture coordinates of the quad are where the floating-point arithmetic shows:
  \<^verbatim>\<open>setTargetUVs\<close> computes them by a division in double precision, of heights that may
  be zero, and the quad vertex view is a \<^verbatim>\<open>Float32Array\<close>, which rounds every number
  stored into it to single precision. These numbers have the type \<open>number\<close> below.
\<close>

datatype error = TypeError | NotFinite

subsection \<open>Floating-point numbers\<close>

text \<open>
  A value of IEEE 754 arithmetic: a finite number, an infinity or \<^verbatim>\<open>NaN\<close>. The two zeros
  of IEEE 754 are not told apart: \<open>Finite 0\<close> stands for both.
\<close>

datatype number = Finite real | PosInfinity | NegInfinity | NaN

text \<open>
  Rounding to the nearest integer, a tie to the even one.
\<close>

definition roundEven :: "real \<Rightarrow> int" where
  "roundEven y =
     (let f = \<lfloor>y\<rfloor>; d = y - of_int f
      in if d < 1 / 2 then f
         else if 1 / 2 < d then f + 1
         else if even f then f else f + 1)"

text \<open>
  The binary exponent of a real other than zero: the \<open>e\<close> with
  \<open>2\<^sup>e \<le> \<bar>x\<bar> < 2\<^sup>e\<^sup>+\<^sup>1\<close>.
\<close>

definition exponent :: "real \<Rightarrow> int" where
  "exponent x =
     (if 1 \<le> \<bar>x\<bar> then bitlen \<lfloor>\<bar>x\<bar>\<rfloor> - 1 else - bitlen (\<lceil>1 / \<bar>x\<bar>\<rceil> - 1))"

text \<open>
  Rounding a real to the nearest number of a binary format with \<open>p\<close> significant bits
  and exponents from \<open>emin\<close> to \<open>emax\<close>, ties to even: the default rounding of IEEE
  754. Below \<open>2\<^sup>e\<^sup>m\<^sup>i\<^sup>n\<close> the spacing stays that of the exponent \<open>emin\<close> (the
  subnormal numbers); a result of magnitude \<open>2\<^sup>e\<^sup>m\<^sup>a\<^sup>x\<^sup>+\<^sup>1\<close> or more is an infinity.
\<close>

definition nearest :: "nat \<Rightarrow> int \<Rightarrow> int \<Rightarrow> real \<Rightarrow> number" where
  "nearest p emin emax x =
     (if x = 0 then Finite 0
      else let e = max (exponent x) emin;
               q = 2 powi (e - int p + 1);
               r = of_int (roundEven (x / q)) * q
           in if 2 powi (emax + 1) \<le> \<bar>r\<bar>
              then (if 0 < x then PosInfinity else NegInfinity)
              else Finite r)"

text \<open>
  Single precision (binary32), the element type of a \<^verbatim>\<open>Float32Array\<close>, and double
  precision (binary64), the JavaScript number.
\<close>

definition fround :: "real \<Rightarrow> number" where
  "fround x = nearest 24 (- 126) 127 x"

definition dround :: "real \<Rightarrow> number" where
  "dround x = nearest 53 (- 1022) 1023 x"

text \<open>
  What an element of a \<^verbatim>\<open>Float32Array\<close> holds after a number is stored into it.
\<close>

fun toFloat32 :: "number \<Rightarrow> number" where
  "toFloat32 (Finite x) = fround x"
| "toFloat32 PosInfinity = PosInfinity"
| "toFloat32 NegInfinity = NegInfinity"
| "toFloat32 NaN = NaN"

text \<open>
  The JavaScript operators the texture coordinates go through: \<^verbatim>\<open>a / b\<close> on two finite
  numbers (a division by zero, the zero being the positive one, gives the infinity of the
  sign of \<open>a\<close>, or \<^verbatim>\<open>NaN\<close> for \<^verbatim>\<open>0 / 0\<close>), \<^verbatim>\<open>a + b\<close>, \<^verbatim>\<open>a - b\<close> and \<^verbatim>\<open>a > b\<close>.
  Each finite result is rounded to double precision; a comparison with \<^verbatim>\<open>NaN\<close> is
  false.
\<close>

definition jsDivide :: "real \<Rightarrow> real \<Rightarrow> number" where
  "jsDivide a b =
     (if b = 0 then (if a = 0 then NaN else if 0 < a then PosInfinity else NegInfinity)
      else dround (a / b))"

fun jsPlus :: "number \<Rightarrow> number \<Rightarrow> number" where
  "jsPlus (Finite a) (Finite b) = dround (a + b)"
| "jsPlus NaN _ = NaN"
| "jsPlus _ NaN = NaN"
| "jsPlus PosInfinity NegInfinity = NaN"
| "jsPlus NegInfinity PosInfinity = NaN"
| "jsPlus PosInfinity _ = PosInfinity"
| "jsPlus _ PosInfinity = PosInfinity"
| "jsPlus NegInfinity _ = NegInfinity"
| "jsPlus _ NegInfinity = NegInfinity"

fun jsNegate :: "number \<Rightarrow> number" where
  "jsNegate (Finite a) = Finite (- a)"
| "jsNegate PosInfinity = NegInfinity"
| "jsNegate NegInfinity = PosInfinity"
| "jsNegate NaN = NaN"

definition jsMinus :: "number \<Rightarrow> number \<Rightarrow> number" where
  "jsMinus a b = jsPlus a (jsNegate b)"

fun jsGreater :: "number \<Rightarrow> number \<Rightarrow> bool" where
  "jsGreater (Finite a) (Finite b) \<longleftrightarrow> a > b"
| "jsGreater NaN _ \<longleftrightarrow> False"
| "jsGreater _ NaN \<longleftrightarrow> False"
| "jsGreater PosInfinity PosInfinity \<longleftrightarrow> False"
| "jsGreater PosInfinity _ \<longleftrightarrow> True"
| "jsGreater NegInfinity _ \<longleftrightarrow> False"
| "jsGreater (Finite a) PosInfinity \<longleftrightarrow> False"
| "jsGreater (Finite a) NegInfinity \<longleftrightarrow> True"

text \<open>
  \<^verbatim>\<open>xs[i]\<close> on a JavaScript array: the element when \<open>i\<close> is a whole number within
  range, \<^verbatim>\<open>undefined\<close> (\<open>None\<close>) otherwise, also for a negative or fractional index.
\<close>

definition elementAt :: "'a list \<Rightarrow> real \<Rightarrow> 'a option" where
  "elementAt xs i =
     (if of_int \<lfloor>i\<rfloor> = i \<and> 0 \<le> i \<and> i < of_nat (length xs)
      then Some (xs ! nat \<lfloor>i\<rfloor>) else None)"

subsection \<open>Collaborators of the host engine\<close>

text \<open>
  Modelled from the spec: the class \<^verbatim>\<open>RenderTarget\<close> (\<^verbatim>\<open>../RenderTarget\<close>) is not among the
  sources. The spec has it own a texture and framebuffer pair with a fixed width and height
  and flags for auto-clear and for binding its size to the screen; the type definition
  \<^verbatim>\<open>RenderTargetConfig\<close> gives the defaults \<open>scale = 1\<close>, \<open>minFilter = 0\<close>,
  \<open>autoClear = true\<close>. A render target is the record of its constructor arguments; the
  texture and the framebuffer it owns are named after it.
\<close>

record renderTarget =
  width :: real
  height :: real
  scale :: real
  minFilter :: real
  autoClear :: bool
  autoResize :: bool

definition RenderTarget ::
  "real \<Rightarrow> real \<Rightarrow> real option \<Rightarrow> real option \<Rightarrow> bool option \<Rightarrow> bool option \<Rightarrow> renderTarget" where
  "RenderTarget w h sc mf ac ar =
     \<lparr> width = w, height = h,
       scale = (case sc of None \<Rightarrow> 1 | Some v \<Rightarrow> v),
       minFilter = (case mf of None \<Rightarrow> 0 | Some v \<Rightarrow> v),
       autoClear = (case ac of None \<Rightarrow> True | Some v \<Rightarrow> v),
       autoResize = (case ar of None \<Rightarrow> False | Some v \<Rightarrow> v) \<rparr>"

datatype texture = TargetTexture renderTarget | WebGLTexture nat

datatype framebuffer = TargetFramebuffer renderTarget | HostFramebuffer nat

text \<open>
  Modelled from the spec: \<^verbatim>\<open>BlendModes\<close> (\<^verbatim>\<open>../../BlendModes\<close>) is not among the sources;
  the code names the one mode \<^verbatim>\<open>ERASE\<close>, the spec's subtractive erase blend mode. Every
  other mode of the host engine is \<open>Mode n\<close>.
\<close>

datatype blendMode = ERASE | Mode nat

datatype shader = DrawSprite | CopySprite | DrawGame | ConfigShader nat

text \<open>
  Modelled from the spec: \<^verbatim>\<open>math/snap/SnapCeil\<close> is not among the sources. The spec gives
  the bucket of a size as \<open>ceil(size/64)\<close>, which is what the call
  \<^verbatim>\<open>SnapCeil(size, 64, 0, true)\<close> has to yield: the value, counted from \<open>start\<close>, is
  rounded up to the next multiple of \<open>gap\<close>, and divided by \<open>gap\<close> when the last
  argument (\<^verbatim>\<open>divide\<close>) is set.
\<close>

definition SnapCeil :: "real \<Rightarrow> real \<Rightarrow> real \<Rightarrow> bool \<Rightarrow> real" where
  "SnapCeil v gap start dv =
     (if gap = 0 then v
      else let w = gap * of_int \<lceil>(v - start) / gap\<rceil>
           in if dv then (start + w) / gap else start + w)"

text \<open>
  Modelled from the spec: \<^verbatim>\<open>geom/rectangle/Rectangle\<close> and \<^verbatim>\<open>CenterOn\<close> are not among
  the sources. The spec has the target's placement centred on the centre of the sprite's
  bounding box: \<open>CenterOn\<close> moves a rectangle so that its centre is the given point.
\<close>

record rectangle =
  rectX :: real
  rectY :: real
  rectWidth :: real
  rectHeight :: real

definition setTo :: "real \<Rightarrow> real \<Rightarrow> real \<Rightarrow> real \<Rightarrow> rectangle \<Rightarrow> rectangle" where
  "setTo x y w h rect = rect \<lparr> rectX := x, rectY := y, rectWidth := w, rectHeight := h \<rparr>"

definition centerX :: "rectangle \<Rightarrow> real" where
  "centerX rect = rectX rect + rectWidth rect / 2"

definition centerY :: "rectangle \<Rightarrow> real" where
  "centerY rect = rectY rect + rectHeight rect / 2"

definition CenterOn :: "rectangle \<Rightarrow> real \<Rightarrow> real \<Rightarrow> rectangle" where
  "CenterOn rect x y =
     rect \<lparr> rectX := x - rectWidth rect / 2, rectY := y - rectHeight rect / 2 \<rparr>"

record gameObject =
  name :: string
  fxPadding :: real

record spriteData =
  sprite :: "gameObject option"
  sd_x0 :: real
  sd_y0 :: real
  sd_x1 :: real
  sd_y1 :: real
  sd_x2 :: real
  sd_y2 :: real
  sd_x3 :: real
  sd_y3 :: real
  sd_u0 :: real
  sd_v0 :: real
  sd_u1 :: real
  sd_v1 :: real
  tintTL :: real
  tintTR :: real
  tintBL :: real
  tintBR :: real
  tintEffect :: real
  texture :: "texture option"
  textureIndex :: real

text \<open>
  What the pipeline asks of the renderer, of the WebGL context, of its base class and of
  the game object, in the order it asks: the trace of one run. None of these is among the
  sources; each is an entry of the trace, and the three that the pipeline reads back (the
  current blend mode, the current framebuffer, the current shader) also change the state.

  The callbacks are entries of the trace as well. The pipeline's own \<^verbatim>\<open>onDrawSprite\<close> and
  \<^verbatim>\<open>onCopySprite\<close> have empty bodies in the source; \<^verbatim>\<open>onBatch\<close> belongs to the base
  class, \<^verbatim>\<open>onFX\<close> and \<^verbatim>\<open>onFXCopy\<close> to the game object. Each entry carries the sprite
  data the callback finds in the pipeline when it is called. A subclass that overrides a
  callback is outside the model. Of \<^verbatim>\<open>shader.bind(wasBound, false)\<close> the entry keeps the
  shader; the answer of \<^verbatim>\<open>setVertexBuffer\<close> it hands on stays inside the host.
\<close>

datatype call =
    SetShader "shader option"
  | Set1i string real
  | SetVertexBuffer
  | ShaderBind shader
  | OnDrawSprite gameObject renderTarget spriteData
  | OnFX gameObject spriteData
  | OnBatch gameObject spriteData
  | OnFXCopy gameObject spriteData
  | OnCopySprite renderTarget renderTarget gameObject spriteData
  | SetTextureZero texture
  | ClearTextureZero
  | ResetTextures
  | PopFramebuffer bool bool bool
  | SetBlendMode blendMode
  | BatchVert real real real real real real real
  | Flush
  | Viewport real real real real
  | BindFramebuffer "framebuffer option"
  | FramebufferTexture2D texture
  | ClearColor real real real real
  | Clear
  | ActiveTexture nat
  | BindTexture "texture option"
  | CopyTexSubImage2D real real real real real real
  | BufferData "number list"
  | DrawArrays nat nat

record renderer =
  rendererWidth :: real
  rendererHeight :: real
  isBooted :: bool
  currentBlendMode :: blendMode
  currentFramebuffer :: "framebuffer option"
  fboStack :: "framebuffer list"
  calls :: "call list"

definition issue :: "call \<Rightarrow> renderer \<Rightarrow> renderer" where
  "issue c r = r \<lparr> calls := calls r @ [c] \<rparr>"

text \<open>
  Modelled from the spec: \<^verbatim>\<open>renderer.setBlendMode\<close> makes the given mode the current
  blend mode (the spec's switch to the erase mode and back to the prior one).
\<close>

definition setBlendMode :: "blendMode \<Rightarrow> renderer \<Rightarrow> renderer" where
  "setBlendMode m r = (issue (SetBlendMode m) r) \<lparr> currentBlendMode := m \<rparr>"

text \<open>
  Modelled from the spec: \<^verbatim>\<open>renderer.popFramebuffer\<close> is the pop of the spec's
  framebuffer stack; the framebuffer below the popped one becomes the current one, none
  (the game canvas) when the stack runs empty.
\<close>

definition popFramebuffer :: "bool \<Rightarrow> bool \<Rightarrow> bool \<Rightarrow> renderer \<Rightarrow> renderer" where
  "popFramebuffer a b c r =
     (let st = tl (fboStack r)
      in (issue (PopFramebuffer a b c) r)
           \<lparr> fboStack := st,
             currentFramebuffer := (case st of [] \<Rightarrow> None | f # _ \<Rightarrow> Some f) \<rparr>)"

subsection \<open>The pipeline object\<close>

record config =
  cfgFrameInc :: "real option"
  cfgAltFrame :: "bool option"

record pipeline =
  renderer :: renderer
  drawSpriteShader :: "shader option"
  copyShader :: "shader option"
  gameShader :: "shader option"
  currentShader :: "shader option"
  quadVertexViewF32 :: "number list option"
  maxDimension :: real
  frameInc :: real
  altFrame :: bool
  spriteBounds :: rectangle
  targetBounds :: rectangle
  fsTarget :: "renderTarget option"
  spriteData :: spriteData
  renderTargets :: "renderTarget list"

definition emits :: "call list \<Rightarrow> pipeline \<Rightarrow> pipeline" where
  "emits cs p = p \<lparr> renderer := (renderer p) \<lparr> calls := calls (renderer p) @ cs \<rparr> \<rparr>"

text \<open>
  Modelled from the spec: \<^verbatim>\<open>setShader\<close> of the base class fills the spec's current
  shader slot.
\<close>

definition setShader :: "shader option \<Rightarrow> pipeline \<Rightarrow> pipeline" where
  "setShader sh p = (emits [SetShader sh] p) \<lparr> currentShader := sh \<rparr>"

text \<open>
  The constructor's field initialisers. \<^verbatim>\<open>GetFastValue(config, key, default)\<close> is the
  configured value, or the default when the key is absent. The base class constructor starts
  the list of render targets empty.
\<close>

definition construct :: "config \<Rightarrow> renderer \<Rightarrow> pipeline" where
  "construct cfg r =
     \<lparr> renderer = r,
       drawSpriteShader = None, copyShader = None, gameShader = None, currentShader = None,
       quadVertexViewF32 = None,
       maxDimension = 0,
       frameInc = of_int \<lfloor>case cfgFrameInc cfg of None \<Rightarrow> 64 | Some v \<Rightarrow> v\<rfloor>,
       altFrame = (case cfgAltFrame cfg of None \<Rightarrow> False | Some v \<Rightarrow> v),
       spriteBounds = \<lparr> rectX = 0, rectY = 0, rectWidth = 0, rectHeight = 0 \<rparr>,
       targetBounds = \<lparr> rectX = 0, rectY = 0, rectWidth = 0, rectHeight = 0 \<rparr>,
       fsTarget = None,
       spriteData =
         \<lparr> sprite = None,
           sd_x0 = 0, sd_y0 = 0, sd_x1 = 0, sd_y1 = 0, sd_x2 = 0, sd_y2 = 0, sd_x3 = 0, sd_y3 = 0,
           sd_u0 = 0, sd_v0 = 0, sd_u1 = 0, sd_v1 = 0,
           tintTL = 0, tintTR = 0, tintBL = 0, tintBR = 0, tintEffect = 0,
           texture = None, textureIndex = 0 \<rparr>,
       renderTargets = [] \<rparr>"

subsection \<open>onResize\<close>

text \<open>
  The quad vertex view is a \<^verbatim>\<open>Float32Array\<close> of 42 elements, seven per vertex
  \<open>[x, y, u, v, unit, mode, tint]\<close>. A write to a typed array within range replaces the
  element and one out of range is dropped, which is \<^term>\<open>list_update\<close>; a write through
  the view before \<^verbatim>\<open>boot\<close> made it is a \<open>TypeError\<close>. An error comes with the
  pipeline as the throw leaves it.

  \<^verbatim>\<open>onResize\<close> stores the width and the height of the renderer: whole pixel counts
  below \<open>2\<^sup>2\<^sup>4\<close>, which single precision holds exactly. The elements it writes are
  these numbers as they are.
\<close>

definition onResize :: "real \<Rightarrow> real \<Rightarrow> pipeline \<Rightarrow> (error \<times> pipeline) + pipeline" where
  "onResize w h p =
     (case quadVertexViewF32 p of
        None \<Rightarrow> Inl (TypeError, p)
      | Some vertexViewF32 \<Rightarrow>
          Inr (p \<lparr> quadVertexViewF32 :=
                 Some (vertexViewF32
                   [1 := Finite h, 22 := Finite h,
                    14 := Finite w, 28 := Finite w,
                    35 := Finite w, 36 := Finite h]) \<rparr>))"

subsection \<open>boot\<close>

text \<open>
  The loop \<^verbatim>\<open>for (var i = 1; i < qty; i++)\<close> of \<^verbatim>\<open>boot\<close>, pushing onto \<open>targets\<close>.
\<close>

function boot_loop :: "real \<Rightarrow> bool \<Rightarrow> int \<Rightarrow> int \<Rightarrow> renderTarget list \<Rightarrow> renderTarget list" where
  "boot_loop inc alt i qty targets =
     (if i < qty then
        let targetWidth = of_int i * inc;
            targets = targets @ [RenderTarget targetWidth targetWidth None None None None];
            targets = targets @ [RenderTarget targetWidth targetWidth None None None None];
            targets = (if alt
                       then targets @ [RenderTarget targetWidth targetWidth None None None None]
                       else targets)
        in boot_loop inc alt (i + 1) qty targets
      else targets)"
  by pat_completeness auto
termination
  by (relation "measure (\<lambda>(inc, alt, i, qty, targets). nat (qty - i))") auto

text \<open>
  \<^verbatim>\<open>boot\<close>. With a zero increment the quotient \<^verbatim>\<open>minDimension / this.frameInc\<close> is not a
  finite number (the loop then has no bound, or \<open>maxDimension\<close> is not a number): the model
  stops there with \<open>NotFinite\<close>. The base class \<^verbatim>\<open>boot\<close> is outside the sources; of what
  it sets up the pipeline uses its three shaders.
\<close>

definition boot :: "pipeline \<Rightarrow> (error \<times> pipeline) + pipeline" where
  "boot p =
     (let r = renderer p;
          targets = renderTargets p;
          minDimension = min (rendererWidth r) (rendererHeight r)
      in if frameInc p = 0 then Inl (NotFinite, p)
         else
           let qty = \<lceil>minDimension / frameInc p\<rceil>;
               targets = boot_loop (frameInc p) (altFrame p) 1 qty targets;
               targets = targets @ [RenderTarget (rendererWidth r) (rendererHeight r)
                                      (Some 1) (Some 0) (Some True) (Some True)];
               targets = targets @ [RenderTarget (rendererWidth r) (rendererHeight r)
                                      (Some 1) (Some 0) (Some True) (Some True)];
               targets = (if altFrame p
                          then targets @ [RenderTarget (rendererWidth r) (rendererHeight r)
                                            (Some 1) (Some 0) (Some True) (Some True)]
                          else targets);
               fs = RenderTarget (rendererWidth r) (rendererHeight r)
                      (Some 1) (Some 0) (Some True) (Some True);
               targets = targets @ [fs];
               p = p \<lparr> drawSpriteShader := Some DrawSprite,
                       copyShader := Some CopySprite,
                       gameShader := Some DrawGame,
                       renderTargets := targets,
                       fsTarget := Some fs,
                       maxDimension := (of_int qty - 1) * frameInc p,
                       quadVertexViewF32 := Some (replicate 42 (Finite 0)) \<rparr>
           in case onResize (rendererWidth r) (rendererHeight r) p of
                Inl e \<Rightarrow> Inl e
              | Inr p \<Rightarrow> Inr (p \<lparr> currentShader := copyShader p \<rparr>))"

definition SpriteFXPipeline :: "config \<Rightarrow> renderer \<Rightarrow> (error \<times> pipeline) + pipeline" where
  "SpriteFXPipeline cfg r =
     (let p = construct cfg r in if isBooted r then boot p else Inr p)"

subsection \<open>Selecting a render target\<close>

definition getSpriteTarget :: "real \<Rightarrow> pipeline \<Rightarrow> renderTarget option \<times> pipeline" where
  "getSpriteTarget sz p =
     (let targets = renderTargets p;
          offset = (if altFrame p then 3 else 2)
      in if sz > maxDimension p then
           let p = p \<lparr> spriteData := (spriteData p)
                         \<lparr> textureIndex := of_nat (length targets) - offset \<rparr> \<rparr>
           in (elementAt targets (textureIndex (spriteData p)), p)
         else
           let index = (SnapCeil sz 64 0 True - 1) * offset;
               p = p \<lparr> spriteData := (spriteData p) \<lparr> textureIndex := index \<rparr> \<rparr>
           in (elementAt targets index, p))"

definition getSwapTarget :: "pipeline \<Rightarrow> renderTarget option" where
  "getSwapTarget p = elementAt (renderTargets p) (textureIndex (spriteData p) + 1)"

definition getAltSwapTarget :: "pipeline \<Rightarrow> renderTarget option" where
  "getAltSwapTarget p =
     (if altFrame p
      then elementAt (renderTargets p) (textureIndex (spriteData p) + 2)
      else None)"

subsection \<open>The quad's texture coordinates\<close>

text \<open>
  \<^verbatim>\<open>setUVs\<close> stores its eight arguments into the quad vertex view, a \<^verbatim>\<open>Float32Array\<close>:
  each element then holds its argument rounded to single precision.
\<close>

definition setUVs ::
  "number \<Rightarrow> number \<Rightarrow> number \<Rightarrow> number \<Rightarrow> number \<Rightarrow> number \<Rightarrow> number \<Rightarrow> number \<Rightarrow> pipeline
     \<Rightarrow> (error \<times> pipeline) + pipeline" where
  "setUVs uA vA uB vB uC vC uD vD p =
     (case quadVertexViewF32 p of
        None \<Rightarrow> Inl (TypeError, p)
      | Some vertexViewF32 \<Rightarrow>
          Inr (p \<lparr> quadVertexViewF32 :=
                 Some (vertexViewF32
                   [2 := toFloat32 uA, 3 := toFloat32 vA,
                    9 := toFloat32 uB, 10 := toFloat32 vB,
                    16 := toFloat32 uC, 17 := toFloat32 vC,
                    23 := toFloat32 uA, 24 := toFloat32 vA,
                    30 := toFloat32 uC, 31 := toFloat32 vC,
                    37 := toFloat32 uD, 38 := toFloat32 vD]) \<rparr>))"

text \<open>
  The offset \<open>diff\<close> that \<^verbatim>\<open>setTargetUVs\<close> computes from the two heights, in the
  arithmetic of JavaScript: with a source height of zero the quotient is an infinity or
  \<^verbatim>\<open>NaN\<close>, and the code goes on with it.
\<close>

definition targetDiff :: "renderTarget \<Rightarrow> renderTarget \<Rightarrow> number" where
  "targetDiff source target =
     (let diff = jsDivide (height target) (height source)
      in if jsGreater diff (Finite 0.5)
         then jsMinus (Finite 0.5) (jsMinus diff (Finite 0.5))
         else jsPlus (Finite 0.5) (jsMinus (Finite 0.5) diff))"

definition setTargetUVs ::
  "renderTarget \<Rightarrow> renderTarget \<Rightarrow> pipeline \<Rightarrow> (error \<times> pipeline) + pipeline" where
  "setTargetUVs source target p =
     (let diff = targetDiff source target
      in setUVs (Finite 0) diff (Finite 0) (jsPlus (Finite 1) diff)
           (Finite 1) (jsPlus (Finite 1) diff) (Finite 1) diff p)"

definition resetUVs :: "pipeline \<Rightarrow> (error \<times> pipeline) + pipeline" where
  "resetUVs p =
     setUVs (Finite 0) (Finite 0) (Finite 0) (Finite 1) (Finite 1) (Finite 1) (Finite 1) (Finite 0) p"

subsection \<open>Drawing to the game\<close>

text \<open>
  \<^verbatim>\<open>bindAndDraw\<close>. The matrix is \<^verbatim>\<open>_tempMatrix1.loadIdentity()\<close>, so its \<^verbatim>\<open>getX(x, y)\<close>
  is \<open>x\<close> and its \<^verbatim>\<open>getY(x, y)\<close> is \<open>y\<close>. The tint \<^verbatim>\<open>0xffffff\<close> is 16777215.
\<close>

definition bindAndDraw :: "renderTarget \<Rightarrow> pipeline \<Rightarrow> pipeline" where
  "bindAndDraw source p =
     (let p = emits [Set1i ''uMainSampler'' 0] p;
          p = p \<lparr> renderer := popFramebuffer False False False (renderer p) \<rparr>;
          p = (if currentFramebuffer (renderer p) = None
               then emits [Viewport 0 0 (rendererWidth (renderer p)) (rendererHeight (renderer p))] p
               else p);
          p = emits [ActiveTexture 0, BindTexture (Some (TargetTexture source))] p;
          x = rectX (targetBounds p);
          y = rectY (targetBounds p);
          xw = x + width source;
          yh = y + height source;
          p = emits
                [BatchVert x y 0 0 0 0 16777215,
                 BatchVert x yh 0 1 0 0 16777215,
                 BatchVert xw yh 1 1 0 0 16777215,
                 BatchVert x y 0 0 0 0 16777215,
                 BatchVert xw yh 1 1 0 0 16777215,
                 BatchVert xw y 1 0 0 0 16777215,
                 Flush,
                 ResetTextures] p
      in p \<lparr> spriteData := (spriteData p) \<lparr> sprite := None, texture := None \<rparr> \<rparr>)"

definition drawToGame :: "renderTarget \<Rightarrow> pipeline \<Rightarrow> pipeline" where
  "drawToGame source p =
     bindAndDraw source (setShader (copyShader p) (p \<lparr> currentShader := None \<rparr>))"

definition copyToGame :: "renderTarget \<Rightarrow> pipeline \<Rightarrow> pipeline" where
  "copyToGame source p =
     bindAndDraw source (setShader (gameShader p) (p \<lparr> currentShader := None \<rparr>))"

text \<open>The pipeline's own \<^verbatim>\<open>onDraw\<close>: it takes the target and leaves the swap target alone.\<close>

definition onDraw :: "renderTarget \<Rightarrow> renderTarget option \<Rightarrow> pipeline \<Rightarrow> pipeline" where
  "onDraw target swapTarget p = drawToGame target p"

subsection \<open>batchQuad\<close>

definition batchQuad ::
  "gameObject \<Rightarrow> real \<Rightarrow> real \<Rightarrow> real \<Rightarrow> real \<Rightarrow> real \<Rightarrow> real \<Rightarrow> real \<Rightarrow> real
     \<Rightarrow> real \<Rightarrow> real \<Rightarrow> real \<Rightarrow> real \<Rightarrow> real \<Rightarrow> real \<Rightarrow> real \<Rightarrow> real \<Rightarrow> real \<Rightarrow> texture
     \<Rightarrow> pipeline \<Rightarrow> (error \<times> pipeline) + (bool \<times> pipeline)" where
  "batchQuad gameObject x0 y0 x1 y1 x2 y2 x3 y3 u0 v0 u1 v1 tTL tTR tBL tBR tEffect tex p =
     (let padding = fxPadding gameObject;
          bx = min (min x0 x1) (min x2 x3);
          by = min (min y0 y1) (min y2 y3);
          br = max (max x0 x1) (max x2 x3);
          bb = max (max y0 y1) (max y2 y3);
          bw = br - bx;
          bh = bb - by;
          p = p \<lparr> spriteBounds := setTo bx by bw bh (spriteBounds p) \<rparr>;
          w = bw + (padding * 2);
          h = bh + (padding * 2);
          maxDim = \<bar>max w h\<bar>;
          (tg, p) = getSpriteTarget maxDim p
      in case tg of
           None \<Rightarrow> Inl (TypeError, p)
         | Some target \<Rightarrow>
             let p = p \<lparr> targetBounds :=
                         CenterOn (setTo 0 0 (width target) (height target) (targetBounds p))
                           (centerX (spriteBounds p)) (centerY (spriteBounds p)) \<rparr>;
                 p = p \<lparr> spriteData := (spriteData p) \<lparr> sprite := Some gameObject \<rparr> \<rparr>;
                 r = renderer p;
                 p = setShader (drawSpriteShader p) p;
                 p = emits
                       [Set1i ''uMainSampler'' 0,
                        OnDrawSprite gameObject target (spriteData p),
                        OnFX gameObject (spriteData p),
                        SetTextureZero tex,
                        Viewport 0 0 (rendererWidth r) (rendererHeight r)] p
             in (case fsTarget p of
                  None \<Rightarrow> Inl (TypeError, p)
                | Some fs \<Rightarrow>
                    let p = emits
                          [BindFramebuffer (Some (TargetFramebuffer fs)),
                           FramebufferTexture2D (TargetTexture fs),
                           ClearColor 0 0 0 0,
                           Clear,
                           BatchVert x0 y0 u0 v0 0 tEffect tTL,
                           BatchVert x1 y1 u0 v1 0 tEffect tBL,
                           BatchVert x2 y2 u1 v1 0 tEffect tBR,
                           BatchVert x0 y0 u0 v0 0 tEffect tTL,
                           BatchVert x2 y2 u1 v1 0 tEffect tBR,
                           BatchVert x3 y3 u1 v0 0 tEffect tTR,
                           Flush,
                           ClearTextureZero,
                           ActiveTexture 0,
                           BindTexture (Some (TargetTexture target))] p;
                        tx = rectX (targetBounds p);
                        ty = rendererHeight r - (bb + (padding * 2));
                        tw = min (rendererWidth r) (width target);
                        th = min (rendererHeight r) (height target);
                        ty = (if height target = rendererHeight r then 0 else ty);
                        p = emits
                          [CopyTexSubImage2D 0 0 tx ty tw th,
                           BindFramebuffer None,
                           BindTexture None,
                           OnBatch gameObject (spriteData p)] p;
                        p = p \<lparr> currentShader := copyShader p \<rparr>;
                        p = onDraw target (getSwapTarget p) p
                    in Inr (True, p)))"

subsection \<open>copySprite\<close>

text \<open>
  An argument left out is \<open>None\<close> and takes the default the source gives it. The buffer
  handed to \<^verbatim>\<open>gl.bufferData\<close> is the one the quad vertex view looks into.
\<close>

definition copySprite ::
  "renderTarget \<Rightarrow> renderTarget \<Rightarrow> bool option \<Rightarrow> bool option \<Rightarrow> bool option \<Rightarrow> shader option
     \<Rightarrow> pipeline \<Rightarrow> (error \<times> pipeline) + pipeline" where
  "copySprite source target clear clearAlpha eraseMode shader p =
     (let clear = (case clear of None \<Rightarrow> True | Some b \<Rightarrow> b);
          clearAlpha = (case clearAlpha of None \<Rightarrow> True | Some b \<Rightarrow> b);
          eraseMode = (case eraseMode of None \<Rightarrow> False | Some b \<Rightarrow> b);
          shader = (case shader of None \<Rightarrow> copyShader p | Some sh \<Rightarrow> Some sh);
          spr = sprite (spriteData p);
          p = p \<lparr> currentShader := shader \<rparr>;
          p = emits [SetVertexBuffer] p
      in case shader of
           None \<Rightarrow> Inl (TypeError, p)
         | Some sh \<Rightarrow>
             let p = emits [ShaderBind sh, Set1i ''uMainSampler'' 0] p
             in (case spr of
                  None \<Rightarrow> Inl (TypeError, p)
                | Some g \<Rightarrow>
                    let p = emits
                          [OnFXCopy g (spriteData p),
                           OnCopySprite source target g (spriteData p),
                           ActiveTexture 0,
                           BindTexture (Some (TargetTexture source))] p;
                        res =
                          (if height source > height target then
                             setTargetUVs source target
                               (emits [Viewport 0 0 (width source) (height source)] p)
                           else
                             let diff = height target - height source
                             in resetUVs
                                  (emits [Viewport 0 diff (width source) (height source)] p))
                    in (case res of
                         Inl e \<Rightarrow> Inl e
                       | Inr p \<Rightarrow>
                           let p = emits
                                 [BindFramebuffer (Some (TargetFramebuffer target)),
                                  FramebufferTexture2D (TargetTexture target)] p;
                               p = (if clear
                                    then emits
                                           [ClearColor 0 0 0 (if clearAlpha then 0 else 1),
                                            Clear] p
                                    else p);
                               blendMode = currentBlendMode (renderer p);
                               p = (if eraseMode
                                    then p \<lparr> renderer := setBlendMode ERASE (renderer p) \<rparr>
                                    else p);
                               p = emits
                                 [BufferData (case quadVertexViewF32 p of
                                                None \<Rightarrow> [] | Some v \<Rightarrow> v),
                                  DrawArrays 0 6] p;
                               p = (if eraseMode
                                    then p \<lparr> renderer := setBlendMode blendMode (renderer p) \<rparr>
                                    else p)
                           in Inr (emits [BindFramebuffer None] p))))"

section \<open>Notions the statements use\<close>

text \<open>
  The source's comment in \<^verbatim>\<open>onResize\<close> gives the layout of the quad vertex view: vertex
  \<open>i\<close> (counted from 0) holds its position at \<open>7 i\<close> and \<open>7 i + 1\<close> and its texture
  coordinates at \<open>7 i + 2\<close> and \<open>7 i + 3\<close>.
\<close>

definition vertexPosition :: "number list \<Rightarrow> nat \<Rightarrow> number \<times> number" where
  "vertexPosition v i = (v ! (7 * i), v ! (7 * i + 1))"

definition vertexUV :: "number list \<Rightarrow> nat \<Rightarrow> number \<times> number" where
  "vertexUV v i = (v ! (7 * i + 2), v ! (7 * i + 3))"

text \<open>
  The texture coordinates of vertex \<open>i\<close> read back from the view of the pipeline that a
  call returns; none when the call threw, or when there is no view.
\<close>

definition readUV :: "nat \<Rightarrow> (error \<times> pipeline) + pipeline \<Rightarrow> (number \<times> number) option" where
  "readUV i res =
     (case res of
        Inl e \<Rightarrow> None
      | Inr p \<Rightarrow> (case quadVertexViewF32 p of None \<Rightarrow> None | Some v \<Rightarrow> Some (vertexUV v i)))"

text \<open>
  The callbacks among the entries of a trace, and the size \<^verbatim>\<open>batchQuad\<close> asks a target
  for: the larger side of the quad's bounding box, with the padding on both sides.
\<close>

fun isCallback :: "call \<Rightarrow> bool" where
  "isCallback (OnDrawSprite g t sd) = True"
| "isCallback (OnFX g sd) = True"
| "isCallback (OnBatch g sd) = True"
| "isCallback (OnFXCopy g sd) = True"
| "isCallback (OnCopySprite s t g sd) = True"
| "isCallback c = False"

definition effectiveSize ::
  "gameObject \<Rightarrow> real \<Rightarrow> real \<Rightarrow> real \<Rightarrow> real \<Rightarrow> real \<Rightarrow> real \<Rightarrow> real \<Rightarrow> real \<Rightarrow> real" where
  "effectiveSize g x0 y0 x1 y1 x2 y2 x3 y3 =
     \<bar>max (max (max x0 x1) (max x2 x3) - min (min x0 x1) (min x2 x3) + fxPadding g * 2)
          (max (max y0 y1) (max y2 y3) - min (min y0 y1) (min y2 y3) + fxPadding g * 2)\<bar>"

text \<open>
  The six position components that no method writes: in a quad vertex view of 42 elements
  they are zero, as in the fresh buffer of \<^verbatim>\<open>boot\<close>.
\<close>

definition zeroCorners :: "number list \<Rightarrow> bool" where
  "zeroCorners v \<longleftrightarrow>
     length v = 42 \<and> v ! 0 = Finite 0 \<and> v ! 7 = Finite 0 \<and> v ! 8 = Finite 0
       \<and> v ! 15 = Finite 0 \<and> v ! 21 = Finite 0 \<and> v ! 29 = Finite 0"

definition quadOk :: "pipeline \<Rightarrow> bool" where
  "quadOk p = (case quadVertexViewF32 p of None \<Rightarrow> False | Some v \<Rightarrow> zeroCorners v)"

text \<open>
  The ladder in the spec's words: a square target of side \<open>w\<close>; a full-screen target; a
  tier, which is a target with its swap duplicate and, with \<open>altFrame\<close>, its alt-swap
  duplicate; and the tiers of the buckets \<open>1\<close> to \<open>n\<close>, bucket \<open>i\<close> of side \<open>i\<close> times
  the increment.
\<close>

definition square :: "real \<Rightarrow> renderTarget" where
  "square w = RenderTarget w w None None None None"

definition fullScreen :: "renderer \<Rightarrow> renderTarget" where
  "fullScreen r =
     RenderTarget (rendererWidth r) (rendererHeight r) (Some 1) (Some 0) (Some True) (Some True)"

definition tier :: "bool \<Rightarrow> renderTarget \<Rightarrow> renderTarget list" where
  "tier alt t = replicate (if alt then 3 else 2) t"

definition ladder :: "real \<Rightarrow> bool \<Rightarrow> int \<Rightarrow> renderTarget list" where
  "ladder inc alt n = concat (map (\<lambda>i. tier alt (square (of_int i * inc))) [1..n])"

text \<open>The bound \<open>qty\<close> of the loop of \<^verbatim>\<open>boot\<close>, as \<^verbatim>\<open>boot\<close> computes it.\<close>

definition bootQty :: "pipeline \<Rightarrow> int" where
  "bootQty p = \<lceil>min (rendererWidth (renderer p)) (rendererHeight (renderer p)) / frameInc p\<rceil>"

text \<open>
  The size buckets of a pipeline: the distinct sides of the targets that are not full-screen
  ones (those \<^verbatim>\<open>boot\<close> makes without the resize flag), in the order of the list.
\<close>

definition bucketSizes :: "pipeline \<Rightarrow> real list" where
  "bucketSizes p = remdups (map width (filter (\<lambda>t. \<not> autoResize t) (renderTargets p)))"

text \<open>A renderer of the given size that has booted and has issued nothing yet.\<close>

definition bootedRenderer :: "real \<Rightarrow> real \<Rightarrow> renderer" where
  "bootedRenderer w h =
     \<lparr> rendererWidth = w, rendererHeight = h, isBooted = True,
       currentBlendMode = Mode 0, currentFramebuffer = None, fboStack = [], calls = [] \<rparr>"

text \<open>The pipeline a configuration gives on such a renderer, when its construction succeeds.\<close>

definition booted :: "config \<Rightarrow> real \<Rightarrow> real \<Rightarrow> pipeline option" where
  "booted cfg w h =
     (case SpriteFXPipeline cfg (bootedRenderer w h) of
        Inl e \<Rightarrow> None
      | Inr p \<Rightarrow> Some p)"

text \<open>
  The pipelines a program can hold: one that \<^verbatim>\<open>boot\<close> has set up from a fresh
  construction, and from there any number of calls of the methods above, each leaving the
  pipeline it returns with or throws from; in between the host may change its renderer.
\<close>

definition after :: "(error \<times> pipeline) + pipeline \<Rightarrow> pipeline" where
  "after res = (case res of Inl (e, p) \<Rightarrow> p | Inr p \<Rightarrow> p)"


section \<open>Properties\<close>

declare boot_loop.simps [simp del]

subsection \<open>What boot builds\<close>

lemma boot_loop_eq:
  "boot_loop inc alt i qty targets =
     targets @ concat (map (\<lambda>i. tier alt (square (of_int i * inc))) [i..qty - 1])"
proof (induction inc alt i qty targets rule: boot_loop.induct)
  case (1 inc alt i qty targets)
  show ?case
  proof (cases "i < qty")
    case True
    then have u: "[i..qty - 1] = i # [i + 1..qty - 1]"
      by (simp add: upto_rec1)
    show ?thesis
      using True "1.IH" [OF True refl refl refl refl]
      by (subst boot_loop.simps)
        (simp add: u tier_def square_def Let_def numeral_3_eq_3 numeral_2_eq_2)
  next
    case False
    then show ?thesis
      by (subst boot_loop.simps) simp
  qed
qed

lemma boot_Inr:
  assumes "frameInc p \<noteq> 0"
  shows "\<exists>p'. boot p = Inr p'"
  using assms by (simp add: boot_def Let_def onResize_def)

lemma boot_renderTargets:
  assumes "boot p = Inr p'"
  shows "renderTargets p' =
           renderTargets p
           @ ladder (frameInc p) (altFrame p)
               (\<lceil>min (rendererWidth (renderer p)) (rendererHeight (renderer p)) / frameInc p\<rceil> - 1)
           @ tier (altFrame p) (fullScreen (renderer p)) @ [fullScreen (renderer p)]"
  using assms
  by (auto simp: boot_def Let_def onResize_def boot_loop_eq ladder_def tier_def fullScreen_def
        numeral_3_eq_3 numeral_2_eq_2 split: if_splits)

lemma boot_fields:
  assumes "boot p = Inr p'"
  shows "frameInc p' = frameInc p" and "altFrame p' = altFrame p"
    and "renderer p' = renderer p" and "spriteData p' = spriteData p"
    and "fsTarget p' = Some (fullScreen (renderer p))"
    and "maxDimension p' =
           (of_int \<lceil>min (rendererWidth (renderer p)) (rendererHeight (renderer p)) / frameInc p\<rceil> - 1)
             * frameInc p"
    and "frameInc p \<noteq> 0"
  using assms
  by (auto simp: boot_def Let_def onResize_def fullScreen_def split: if_splits)

lemma increasing_multiples:
  assumes "0 < (inc :: real)"
  shows "sorted_wrt (<) (map (\<lambda>i. of_int i * inc) [m..n])"
proof -
  have "sorted_wrt (<) [m..n]"
    by (simp add: sorted_wrt_upto) 
  then show ?thesis
    using assms by (simp add: sorted_wrt_map sorted_wrt_mono_rel [where P = "(<)"])
qed

text \<open>
  C2, as amended. On a freshly constructed pipeline with a positive increment, \<^verbatim>\<open>boot\<close>
  succeeds and the list of render targets is, in this order: for every bucket index \<open>i\<close>
  from 1 to \<open>ceil(min(width, height) / increment) - 1\<close> a square target of side \<open>i\<close>
  times the increment with its swap duplicate (and its alt-swap duplicate when \<open>altFrame\<close>
  is set); then the full-screen primary and swap (and alt) targets; then the dedicated
  full-screen target, which is also \<open>fsTarget\<close>. \<open>maxDimension\<close> is
  \<open>ceil(min(width, height) / increment) - 1\<close> times the increment, the side of the last
  bucket when there is one, and the sides of the buckets are strictly increasing multiples of
  the increment.
\<close>

theorem boot_builds_ladder:
  assumes "0 < frameInc (construct cfg r)"
  shows "\<exists>p. boot (construct cfg r) = Inr p
           \<and> renderTargets p =
               ladder (frameInc p) (altFrame p)
                 (\<lceil>min (rendererWidth r) (rendererHeight r) / frameInc p\<rceil> - 1)
               @ tier (altFrame p) (fullScreen r) @ [fullScreen r]
           \<and> fsTarget p = Some (fullScreen r)
           \<and> maxDimension p =
               of_int (\<lceil>min (rendererWidth r) (rendererHeight r) / frameInc p\<rceil> - 1)
                 * frameInc p
           \<and> sorted_wrt (<)
               (map (\<lambda>i. of_int i * frameInc p)
                  [1..\<lceil>min (rendererWidth r) (rendererHeight r) / frameInc p\<rceil> - 1])"
proof -
  let ?p = "construct cfg r"
  from assms obtain p where b: "boot ?p = Inr p"
    using boot_Inr [of ?p] by auto
  have r: "renderer ?p = r" and t: "renderTargets ?p = []"
    by (simp_all add: construct_def)
  have "sorted_wrt (<)
          (map (\<lambda>i. of_int i * frameInc p)
             [1..\<lceil>min (rendererWidth r) (rendererHeight r) / frameInc p\<rceil> - 1])"
    using assms boot_fields(1) [OF b] by (simp add: increasing_multiples)
  then show ?thesis
    using b boot_renderTargets [OF b] boot_fields [OF b] r t by simp
qed

text \<open>
  The default configuration on an 800 by 600 viewport: the increment is 64 and nine buckets
  come out, of sides 64 to 576.
\<close>

theorem boot_builds_ladder_witness:
  "0 < frameInc (construct \<lparr> cfgFrameInc = None, cfgAltFrame = None \<rparr> (bootedRenderer 800 600))
   \<and> (\<exists>p. boot (construct \<lparr> cfgFrameInc = None, cfgAltFrame = None \<rparr> (bootedRenderer 800 600)) = Inr p
        \<and> map width (renderTargets p) =
            [64, 64, 128, 128, 192, 192, 256, 256, 320, 320, 384, 384, 448, 448, 512, 512,
             576, 576, 800, 800, 800]
        \<and> maxDimension p = 576)"
proof -
  define c where "c = construct \<lparr> cfgFrameInc = None, cfgAltFrame = None \<rparr> (bootedRenderer 800 600)"
  define r where "r = bootedRenderer 800 600"
  have h: "0 < frameInc (construct \<lparr> cfgFrameInc = None, cfgAltFrame = None \<rparr> (bootedRenderer 800 600))"
    by (simp add: construct_def)
  have "\<exists>p. boot c = Inr p
           \<and> renderTargets p =
               ladder (frameInc p) (altFrame p)
                 (\<lceil>min (rendererWidth r) (rendererHeight r) / frameInc p\<rceil> - 1)
               @ tier (altFrame p) (fullScreen r) @ [fullScreen r]
           \<and> fsTarget p = Some (fullScreen r)
           \<and> maxDimension p =
               of_int (\<lceil>min (rendererWidth r) (rendererHeight r) / frameInc p\<rceil> - 1)
                 * frameInc p
           \<and> sorted_wrt (<)
               (map (\<lambda>i. of_int i * frameInc p)
                  [1..\<lceil>min (rendererWidth r) (rendererHeight r) / frameInc p\<rceil> - 1])"
    unfolding c_def r_def by (rule boot_builds_ladder [OF h])
  then obtain p where
    b: "boot c = Inr p" and
    t: "renderTargets p =
          ladder (frameInc p) (altFrame p)
            (\<lceil>min (rendererWidth r) (rendererHeight r) / frameInc p\<rceil> - 1)
          @ tier (altFrame p) (fullScreen r) @ [fullScreen r]" and
    m: "maxDimension p =
          of_int (\<lceil>min (rendererWidth r) (rendererHeight r) / frameInc p\<rceil> - 1) * frameInc p"
    by (elim exE conjE)
  have f: "frameInc p = 64" "altFrame p = False"
    using boot_fields(1,2) [OF b] by (simp_all add: c_def construct_def)
  have rr: "rendererWidth r = 800" "rendererHeight r = 600"
    by (simp_all add: r_def bootedRenderer_def)
  have q: "\<lceil>min (800::real) 600 / 64\<rceil> - 1 = 9"
    by simp
  have "map width (renderTargets p) =
          [64, 64, 128, 128, 192, 192, 256, 256, 320, 320, 384, 384, 448, 448, 512, 512,
           576, 576, 800, 800, 800]"
    unfolding t f rr q
    by (simp add: ladder_def tier_def square_def fullScreen_def rr
          RenderTarget_def upto.simps numeral_2_eq_2)
  moreover have "maxDimension p = 576"
    unfolding m f rr q by simp
  ultimately have "\<exists>p. boot c = Inr p
        \<and> map width (renderTargets p) =
            [64, 64, 128, 128, 192, 192, 256, 256, 320, 320, 384, 384, 448, 448, 512, 512,
             576, 576, 800, 800, 800]
        \<and> maxDimension p = 576"
    using b by (intro exI [of _ p] conjI)
  then show ?thesis
    using h unfolding c_def by (intro conjI)
qed

text \<open>
  C2 as the claim states it has the bucket index run up to \<open>ceil(min(width, height) /
  increment)\<close>, which is 10 on an 800 by 600 viewport with increment 64. The loop of
  \<^verbatim>\<open>boot\<close> stops one short of it: there is no target of side 640.
\<close>

theorem boot_bucket_range_counterexample:
  "\<lceil>min (800 :: real) 600 / 64\<rceil> = 10
   \<and> map_option renderTargets (booted \<lparr> cfgFrameInc = Some 64, cfgAltFrame = Some False \<rparr> 800 600)
       \<noteq> Some (ladder 64 False 10
                 @ tier False (fullScreen (bootedRenderer 800 600))
                 @ [fullScreen (bootedRenderer 800 600)])
   \<and> map_option (map width \<circ> renderTargets)
        (booted \<lparr> cfgFrameInc = Some 64, cfgAltFrame = Some False \<rparr> 800 600)
       = Some [64, 64, 128, 128, 192, 192, 256, 256, 320, 320, 384, 384, 448, 448, 512, 512,
               576, 576, 800, 800, 800]"
proof -
  have c: "\<lceil>min (800 :: real) 600 / 64\<rceil> = 10"
    by simp
  obtain p where p: "booted \<lparr> cfgFrameInc = Some 64, cfgAltFrame = Some False \<rparr> 800 600 = Some p"
    and w: "map width (renderTargets p) =
       [64, 64, 128, 128, 192, 192, 256, 256, 320, 320, 384, 384, 448, 448, 512, 512,
        576, 576, 800, 800, 800]"
    by (simp add: booted_def SpriteFXPipeline_def bootedRenderer_def boot_def construct_def
          onResize_def Let_def boot_loop.simps RenderTarget_def)
  have "length (renderTargets p) = 21"
    using arg_cong [OF w, of length] by simp
  moreover have "length (ladder 64 False 10
                 @ tier False (fullScreen (bootedRenderer 800 600))
                 @ [fullScreen (bootedRenderer 800 600)]) = 23"
    by (simp add: ladder_def tier_def length_concat comp_def sum_list_triv)
  ultimately have "renderTargets p \<noteq> ladder 64 False 10
                 @ tier False (fullScreen (bootedRenderer 800 600))
                 @ [fullScreen (bootedRenderer 800 600)]"
    by auto
  then show ?thesis
    using c p w by simp
qed

subsection \<open>Reading the list of render targets\<close>

lemma elementAt_of_nat:
  "elementAt xs (of_nat k) = (if k < length xs then Some (xs ! k) else None)"
  by (simp add: elementAt_def)

lemma SnapCeil_64:
  "SnapCeil sz 64 0 True = of_int \<lceil>sz / 64\<rceil>"
  by (simp add: SnapCeil_def)

lemma concat_replicate_nth:
  "0 < n \<Longrightarrow> k < n * length xs \<Longrightarrow>
     concat (map (\<lambda>i. replicate n (f i)) xs) ! k = f (xs ! (k div n))"
proof (induction xs arbitrary: k)
  case Nil
  then show ?case by simp
next
  case (Cons a xs)
  show ?case
  proof (cases "k < n")
    case True
    then show ?thesis by (simp add: nth_append)
  next
    case False
    then have kn: "n \<le> k" by simp
    with Cons.prems have "k - n < n * length xs" by simp
    from Cons.IH [OF Cons.prems(1) this]
    have "concat (map (\<lambda>i. replicate n (f i)) xs) ! (k - n) = f (xs ! ((k - n) div n))" .
    moreover have "(k - n) div n = k div n - 1"
      using kn Cons.prems(1) by (simp add: le_div_geq)
    moreover have "0 < k div n"
      using kn Cons.prems(1) by (simp add: div_greater_zero_iff)
    ultimately show ?thesis
      using False by (simp add: nth_append nth_Cons')
  qed
qed

lemma length_ladder:
  "length (ladder inc alt n) = (if alt then 3 else 2) * nat n"
  by (simp add: ladder_def tier_def length_concat comp_def sum_list_triv)

lemma ladder_nth:
  assumes "k < (if alt then 3 else 2) * nat n"
  shows "ladder inc alt n ! k = square (of_int (1 + int (k div (if alt then 3 else 2))) * inc)"
proof -
  let ?o = "if alt then 3 else 2 :: nat"
  have "k div ?o < nat n"
    using assms by (simp add: less_mult_imp_div_less mult.commute split: if_splits)
  then have "[1..n] ! (k div ?o) = 1 + int (k div ?o)"
    by (intro nth_upto) linarith
  moreover have "ladder inc alt n ! k = square (of_int ([1..n] ! (k div ?o)) * inc)"
    unfolding ladder_def tier_def
    using concat_replicate_nth [of ?o k "[1..n]" "\<lambda>i. square (of_int i * inc)"] assms
    by simp
  ultimately show ?thesis by simp
qed

text \<open>
  The list a boot leaves, read by position: \<open>b\<close> buckets of \<open>offset\<close> entries each, then
  \<open>offset + 1\<close> full-screen entries.
\<close>

lemma targets_nth_ladder:
  assumes "ts = ladder inc alt n @ tier alt fs @ [fs]"
    and "k < (if alt then 3 else 2) * nat n"
  shows "elementAt ts (of_nat k) = Some (square (of_int (1 + int (k div (if alt then 3 else 2))) * inc))"
  using assms ladder_nth [OF assms(2), of inc]
  by (simp add: elementAt_of_nat length_ladder nth_append)

lemma targets_nth_fullScreen:
  assumes "ts = ladder inc alt n @ tier alt fs @ [fs]"
    and "(if alt then 3 else 2) * nat n \<le> k" and "k \<le> (if alt then 3 else 2) * nat n + (if alt then 3 else 2)"
  shows "elementAt ts (of_nat k) = Some fs"
proof -
  let ?o = "if alt then 3 else 2 :: nat"
  have "(tier alt fs @ [fs]) ! (k - ?o * nat n) = fs"
    using assms(2,3) by (auto simp: tier_def nth_append less_Suc_eq_le nth_Cons' )
  then show ?thesis
    using assms by (simp add: elementAt_of_nat length_ladder nth_append tier_def)
qed

subsection \<open>What getSpriteTarget selects\<close>

lemma getSpriteTarget_index:
  "textureIndex (spriteData (snd (getSpriteTarget sz p))) =
     (if sz > maxDimension p
      then of_nat (length (renderTargets p)) - (if altFrame p then 3 else 2)
      else (of_int \<lceil>sz / 64\<rceil> - 1) * (if altFrame p then 3 else 2))"
  by (simp add: getSpriteTarget_def Let_def SnapCeil_64)

lemma getSpriteTarget_fst:
  "fst (getSpriteTarget sz p) =
     elementAt (renderTargets p) (textureIndex (spriteData (snd (getSpriteTarget sz p))))"
  by (simp add: getSpriteTarget_def Let_def)

lemma getSpriteTarget_snd:
  "snd (getSpriteTarget sz p) =
     p \<lparr> spriteData := (spriteData p)
           \<lparr> textureIndex := textureIndex (spriteData (snd (getSpriteTarget sz p))) \<rparr> \<rparr>"
  by (simp add: getSpriteTarget_def Let_def)

lemma booted_targets:
  assumes "boot (construct cfg r) = Inr p"
  shows "renderTargets p =
           ladder (frameInc p) (altFrame p) (bootQty p - 1)
           @ tier (altFrame p) (fullScreen r) @ [fullScreen r]"
    and "maxDimension p = of_int (bootQty p - 1) * frameInc p"
    and "renderer p = r"
    and "frameInc p \<noteq> 0"
    and "length (renderTargets p) =
           (if altFrame p then 3 else 2) * nat (bootQty p - 1) + (if altFrame p then 3 else 2) + 1"
proof -
  have c: "renderer (construct cfg r) = r" "renderTargets (construct cfg r) = []"
    by (simp_all add: construct_def)
  show t: "renderTargets p =
           ladder (frameInc p) (altFrame p) (bootQty p - 1)
           @ tier (altFrame p) (fullScreen r) @ [fullScreen r]"
    using boot_renderTargets [OF assms] boot_fields(1,2,3) [OF assms] c
    by (simp add: bootQty_def)
  show "maxDimension p = of_int (bootQty p - 1) * frameInc p"
    using boot_fields(1,3,6) [OF assms] c by (simp add: bootQty_def)
  show "renderer p = r"
    using boot_fields(3) [OF assms] c by simp
  show "frameInc p \<noteq> 0"
    using boot_fields(1,7) [OF assms] by simp
  show "length (renderTargets p) =
           (if altFrame p then 3 else 2) * nat (bootQty p - 1) + (if altFrame p then 3 else 2) + 1"
    unfolding t by (simp add: length_ladder tier_def)
qed

lemma getSpriteTarget_over:
  assumes "boot (construct cfg r) = Inr p" and "maxDimension p < sz"
  shows "textureIndex (spriteData (snd (getSpriteTarget sz p))) =
           of_nat ((if altFrame p then 3 else 2) * nat (bootQty p - 1) + 1)"
    and "fst (getSpriteTarget sz p) = Some (fullScreen r)"
proof -
  show i: "textureIndex (spriteData (snd (getSpriteTarget sz p))) =
           of_nat ((if altFrame p then 3 else 2) * nat (bootQty p - 1) + 1)"
    using assms(2) booted_targets(5) [OF assms(1)]
    by (simp add: getSpriteTarget_index)
  show "fst (getSpriteTarget sz p) = Some (fullScreen r)"
    unfolding getSpriteTarget_fst i
    by (rule targets_nth_fullScreen [OF booted_targets(1) [OF assms(1)]]) simp_all
qed

lemma bucket_in_ladder:
  assumes "boot (construct cfg r) = Inr p" and "frameInc p = 64"
    and "0 < sz" and "sz \<le> maxDimension p"
  shows "1 \<le> \<lceil>sz / 64\<rceil>" and "\<lceil>sz / 64\<rceil> \<le> bootQty p - 1"
proof -
  show "1 \<le> \<lceil>sz / 64\<rceil>"
    using assms(3) by (simp add: Suc_le_eq) 
  have "sz \<le> of_int (bootQty p - 1) * 64"
    using assms(2,4) booted_targets(2) [OF assms(1)] by simp
  then have "sz / 64 \<le> of_int (bootQty p - 1)"
    by (simp only: pos_divide_le_eq [of 64 sz] zero_less_numeral)
  then show "\<lceil>sz / 64\<rceil> \<le> bootQty p - 1"
    by (rule ceiling_le)
qed

lemma getSpriteTarget_ladder:
  assumes "boot (construct cfg r) = Inr p" and "frameInc p = 64"
    and "0 < sz" and "sz \<le> maxDimension p"
  shows "textureIndex (spriteData (snd (getSpriteTarget sz p))) =
           of_nat ((if altFrame p then 3 else 2) * nat (\<lceil>sz / 64\<rceil> - 1))"
    and "fst (getSpriteTarget sz p) = Some (square (of_int \<lceil>sz / 64\<rceil> * 64))"
proof -
  note bk = bucket_in_ladder [OF assms]
  show i: "textureIndex (spriteData (snd (getSpriteTarget sz p))) =
           of_nat ((if altFrame p then 3 else 2) * nat (\<lceil>sz / 64\<rceil> - 1))"
    using assms(4) bk(1) by (simp add: getSpriteTarget_index)
  have "nat (\<lceil>sz / 64\<rceil> - 1) < nat (bootQty p - 1)"
    using bk by linarith
  then have lt: "(if altFrame p then 3 else 2) * nat (\<lceil>sz / 64\<rceil> - 1)
          < (if altFrame p then 3 else 2) * nat (bootQty p - 1)"
    by simp
  have e: "1 + int ((if altFrame p then 3 else 2) * nat (\<lceil>sz / 64\<rceil> - 1)
                   div (if altFrame p then 3 else 2)) = \<lceil>sz / 64\<rceil>"
    using bk(1) by simp
  have "fst (getSpriteTarget sz p) =
          Some (square (of_int (1 + int ((if altFrame p then 3 else 2) * nat (\<lceil>sz / 64\<rceil> - 1)
                   div (if altFrame p then 3 else 2))) * frameInc p))"
    unfolding getSpriteTarget_fst i
    by (rule targets_nth_ladder [OF booted_targets(1) [OF assms(1)] lt])
  then show "fst (getSpriteTarget sz p) = Some (square (of_int \<lceil>sz / 64\<rceil> * 64))"
    unfolding e assms(2) .
qed

subsection \<open>The increment and the constant 64\<close>

text \<open>The definitions to unfold for running the constructor and \<^verbatim>\<open>boot\<close> on given numbers.\<close>

lemmas boot_eval =
  booted_def SpriteFXPipeline_def bootedRenderer_def boot_def construct_def onResize_def
  Let_def boot_loop.simps RenderTarget_def square_def fullScreen_def

text \<open>
  With the increment at its default of 64, \<^verbatim>\<open>getSpriteTarget\<close> does what C1 says: a size
  within \<open>maxDimension\<close> gets the square target of its bucket, which is large enough for
  it, and a larger size gets a full-screen target.
\<close>

lemma getSpriteTarget_increment_64:
  assumes "boot (construct cfg r) = Inr p" and "frameInc p = 64"
  shows "0 < sz \<Longrightarrow> sz \<le> maxDimension p \<Longrightarrow>
           \<exists>t. fst (getSpriteTarget sz p) = Some t \<and> t = square (of_int \<lceil>sz / 64\<rceil> * 64)
             \<and> width t = height t \<and> sz \<le> width t"
    and "maxDimension p < sz \<Longrightarrow> fst (getSpriteTarget sz p) = Some (fullScreen r)"
proof -
  show "maxDimension p < sz \<Longrightarrow> fst (getSpriteTarget sz p) = Some (fullScreen r)"
    by (rule getSpriteTarget_over(2) [OF assms(1)])
  assume s: "0 < sz" "sz \<le> maxDimension p"
  have "sz / 64 \<le> of_int \<lceil>sz / 64\<rceil>"
    by (rule le_of_int_ceiling)
  then have "sz \<le> of_int \<lceil>sz / 64\<rceil> * 64"
    by (simp only: pos_divide_le_eq [of 64 sz] zero_less_numeral)
  then show "\<exists>t. fst (getSpriteTarget sz p) = Some t \<and> t = square (of_int \<lceil>sz / 64\<rceil> * 64)
             \<and> width t = height t \<and> sz \<le> width t"
    using getSpriteTarget_ladder(2) [OF assms s]
    by (simp add: square_def RenderTarget_def)
qed

text \<open>
  C1. \<^verbatim>\<open>getSpriteTarget\<close> takes the bucket from \<^verbatim>\<open>SnapCeil(size, 64, 0, true)\<close>, with the
  constant 64 where \<^verbatim>\<open>boot\<close> built the ladder from \<^verbatim>\<open>this.frameInc\<close>. Configured with
  an increment of 32 on an 800 by 600 viewport, \<open>maxDimension\<close> is 576, and the size 60,
  which is within it, gets the target of side 32: not the target of bucket
  \<open>ceil(60/32) = 2\<close>, and smaller than the size asked for.
\<close>

theorem getSpriteTarget_increment_32:
  "map_option maxDimension (booted \<lparr> cfgFrameInc = Some 32, cfgAltFrame = None \<rparr> 800 600)
     = Some 576
   \<and> map_option (fst \<circ> getSpriteTarget 60)
        (booted \<lparr> cfgFrameInc = Some 32, cfgAltFrame = None \<rparr> 800 600)
     = Some (Some (square 32))
   \<and> width (square 32) < 60"
  by (simp add: boot_eval getSpriteTarget_def elementAt_def SnapCeil_def)

text \<open>
  With the increment at its default of 64, the index \<^verbatim>\<open>getSpriteTarget\<close> selects does not
  decrease when the size grows, as C8 says.
\<close>

lemma getSpriteTarget_index_mono_64:
  assumes "boot (construct cfg r) = Inr p" and "frameInc p = 64" and "s1 < s2"
  shows "textureIndex (spriteData (snd (getSpriteTarget s1 p)))
           \<le> textureIndex (spriteData (snd (getSpriteTarget s2 p)))"
proof -
  let ?o = "if altFrame p then 3 else 2 :: real"
  have o: "0 < ?o" by simp
  note len = booted_targets(5) [OF assms(1)]
  note m = booted_targets(2) [OF assms(1)]
  consider (both) "s2 \<le> maxDimension p" | (split) "s1 \<le> maxDimension p" "maxDimension p < s2"
    | (over) "maxDimension p < s1"
    using assms(3) by linarith
  then show ?thesis
  proof cases
    case both
    then have "s1 \<le> maxDimension p" using assms(3) by simp
    moreover have "\<lceil>s1 / 64\<rceil> \<le> \<lceil>s2 / 64\<rceil>"
      using assms(3) by (intro ceiling_mono) simp
    ultimately show ?thesis
      using both by (simp add: getSpriteTarget_index)
  next
    case split
    have "s1 \<le> of_int (bootQty p - 1) * 64"
      using split(1) m assms(2) by simp
    then have "s1 / 64 \<le> of_int (bootQty p - 1)"
      by (simp only: pos_divide_le_eq [of 64 s1] zero_less_numeral)
    then have c: "\<lceil>s1 / 64\<rceil> \<le> bootQty p - 1"
      by (rule ceiling_le)
    define n where "n = nat (bootQty p - 1)"
    have "\<lceil>s1 / 64\<rceil> - 1 \<le> int n"
      using c unfolding n_def by linarith
    then have "(of_int (\<lceil>s1 / 64\<rceil> - 1) :: real) \<le> of_int (int n)"
      by (simp only: of_int_le_iff)
    then have "of_int \<lceil>s1 / 64\<rceil> - 1 \<le> (of_nat n :: real)"
      by (simp only: of_int_diff of_int_1 of_int_of_nat_eq)
    then have d: "of_int \<lceil>s1 / 64\<rceil> - 1 \<le> (of_nat (nat (bootQty p - 1)) :: real)"
      unfolding n_def .
    show ?thesis
      using split len d by (cases "altFrame p") (simp_all add: getSpriteTarget_index)
  next
    case over
    then show ?thesis
      using assms(3) by (simp add: getSpriteTarget_index)
  qed
qed

text \<open>
  C8. Configured with an increment of 128 on an 800 by 600 viewport, \<open>maxDimension\<close> is
  512 and the list has 11 targets. The size 321 is within \<open>maxDimension\<close> and selects
  index \<open>(ceil(321/64) - 1) * 2 = 10\<close>, the larger size 513 is beyond it and selects index
  \<open>11 - 2 = 9\<close>: the selected index decreases.
\<close>

theorem getSpriteTarget_increment_128:
  "map_option (textureIndex \<circ> spriteData \<circ> snd \<circ> getSpriteTarget 321)
        (booted \<lparr> cfgFrameInc = Some 128, cfgAltFrame = None \<rparr> 800 600)
     = Some 10
   \<and> map_option (textureIndex \<circ> spriteData \<circ> snd \<circ> getSpriteTarget 513)
        (booted \<lparr> cfgFrameInc = Some 128, cfgAltFrame = None \<rparr> 800 600)
     = Some 9"
  by (simp add: boot_eval getSpriteTarget_def elementAt_def SnapCeil_def)

text \<open>
  With the increment at its default of 64 and \<open>altFrame\<close> set, \<^verbatim>\<open>getAltSwapTarget\<close>
  after \<^verbatim>\<open>getSpriteTarget\<close> returns a target, one equal in every dimension to the target
  selected, as C10 says.
\<close>

lemma getAltSwapTarget_increment_64:
  assumes "boot (construct cfg r) = Inr p" and "frameInc p = 64" and "altFrame p" and "0 < sz"
  shows "getAltSwapTarget (snd (getSpriteTarget sz p)) = fst (getSpriteTarget sz p)
         \<and> fst (getSpriteTarget sz p) \<noteq> None"
proof -
  let ?i = "textureIndex (spriteData (snd (getSpriteTarget sz p)))"
  have a: "getAltSwapTarget (snd (getSpriteTarget sz p)) = elementAt (renderTargets p) (?i + 2)"
    using assms(3) by (subst getSpriteTarget_snd) (simp add: getAltSwapTarget_def)
  note t = booted_targets(1) [OF assms(1)]
  show ?thesis
  proof (cases "sz \<le> maxDimension p")
    case True
    note bk = bucket_in_ladder [OF assms(1,2,4) True]
    let ?k = "3 * nat (\<lceil>sz / 64\<rceil> - 1)"
    have i: "?i = of_nat ?k"
      using getSpriteTarget_ladder(1) [OF assms(1,2,4) True] assms(3) by simp
    have i2: "?i + 2 = of_nat (?k + 2)"
      unfolding i by simp
    have "nat (\<lceil>sz / 64\<rceil> - 1) < nat (bootQty p - 1)"
      using bk by linarith
    then have "?k + 2 < 3 * nat (bootQty p - 1)"
      by linarith
    then have lt: "?k + 2 < (if altFrame p then 3 else 2) * nat (bootQty p - 1)"
      by (simp only: assms(3) if_True)
    have "elementAt (renderTargets p) (?i + 2)
            = Some (square (of_int (1 + int ((?k + 2) div (if altFrame p then 3 else 2))) * frameInc p))"
      unfolding i2 by (rule targets_nth_ladder [OF t lt])
    moreover have "(?k + 2) div (if altFrame p then 3 else 2) = nat (\<lceil>sz / 64\<rceil> - 1)"
      using assms(3) by simp
    ultimately have "elementAt (renderTargets p) (?i + 2) = Some (square (of_int \<lceil>sz / 64\<rceil> * 64))"
      using bk(1) assms(2) by simp
    then show ?thesis
      using a getSpriteTarget_ladder(2) [OF assms(1,2,4) True] by simp
  next
    case False
    then have over: "maxDimension p < sz" by simp
    let ?k = "3 * nat (bootQty p - 1) + 1"
    have i: "?i = of_nat ?k"
      using getSpriteTarget_over(1) [OF assms(1) over] assms(3) by simp
    have i2: "?i + 2 = of_nat (?k + 2)"
      unfolding i by simp
    have "elementAt (renderTargets p) (?i + 2) = Some (fullScreen r)"
      unfolding i2 using assms(3) by (intro targets_nth_fullScreen [OF t]) simp_all
    then show ?thesis
      using a getSpriteTarget_over(2) [OF assms(1) over] by simp
  qed
qed

text \<open>
  C10. Configured with an increment of 128 and \<open>altFrame\<close> set on an 800 by 600
  viewport, the list has 16 targets. The size 350 selects index
  \<open>(ceil(350/64) - 1) * 3 = 15\<close>, the last, full-screen entry, and \<^verbatim>\<open>getAltSwapTarget\<close>
  then reads index 17, beyond the list: it returns no target where C10 has it return the
  alt-swap sibling of the target selected.
\<close>

theorem getAltSwapTarget_increment_128:
  "map_option (fst \<circ> getSpriteTarget 350)
        (booted \<lparr> cfgFrameInc = Some 128, cfgAltFrame = Some True \<rparr> 800 600)
     = Some (Some (fullScreen (bootedRenderer 800 600)))
   \<and> map_option (getAltSwapTarget \<circ> snd \<circ> getSpriteTarget 350)
        (booted \<lparr> cfgFrameInc = Some 128, cfgAltFrame = Some True \<rparr> 800 600)
     = Some None"
  by (simp add: boot_eval getSpriteTarget_def getAltSwapTarget_def elementAt_def SnapCeil_def)

subsection \<open>Floating-point rounding\<close>

text \<open>
  The exponent is the one the rounding needs: a real other than zero lies between the
  power of two with its exponent and the next.
\<close>

lemma exponent_bounds:
  assumes "x \<noteq> 0"
  shows "2 powi exponent x \<le> \<bar>x\<bar> \<and> \<bar>x\<bar> < 2 powi (exponent x + 1)"
proof (cases "1 \<le> \<bar>x\<bar>")
  case True
  define m where "m = \<lfloor>\<bar>x\<bar>\<rfloor>"
  have m: "0 < m"
    using True by (simp add: m_def)
  from bitlen_bounds [OF m]
  have b: "2 ^ nat (bitlen m - 1) \<le> m" "m < 2 ^ nat (bitlen m)"
    by simp_all
  have p: "0 < bitlen m"
    using m bitlen_nonneg [of "m div 2"] by (subst compute_bitlen) simp
  have e: "exponent x = bitlen m - 1"
    using True by (simp add: exponent_def m_def)
  have "(2 :: real) powi (bitlen m - 1) = 2 ^ nat (bitlen m - 1)"
    using p by (simp add: power_int_def)
  also have "\<dots> = of_int (2 ^ nat (bitlen m - 1))"
    by simp
  also have "\<dots> \<le> of_int m"
    using b(1) by (simp only: of_int_le_iff)
  also have "\<dots> \<le> \<bar>x\<bar>"
    by (simp add: m_def)
  finally have l: "2 powi exponent x \<le> \<bar>x\<bar>"
    by (simp add: e)
  have "m + 1 \<le> 2 ^ nat (bitlen m)"
    using b(2) by simp
  then have "of_int (m + 1) \<le> (of_int (2 ^ nat (bitlen m)) :: real)"
    by (simp only: of_int_le_iff)
  moreover have "\<bar>x\<bar> < of_int (m + 1)"
    by (simp add: m_def)
  ultimately have "\<bar>x\<bar> < 2 ^ nat (bitlen m)"
    by simp
  also have "\<dots> = 2 powi (exponent x + 1)"
    using p by (simp add: e power_int_def)
  finally show ?thesis
    using l by simp
next
  case False
  define y where "y = 1 / \<bar>x\<bar>"
  define c where "c = \<lceil>y\<rceil>"
  have y: "1 < y"
    using False assms by (simp add: y_def)
  have c: "0 < c - 1"
    using y by (simp add: c_def less_ceiling_iff)
  from bitlen_bounds [OF c]
  have b: "2 ^ nat (bitlen (c - 1) - 1) \<le> c - 1" "c - 1 < 2 ^ nat (bitlen (c - 1))"
    by simp_all
  have p: "0 < bitlen (c - 1)"
    using c bitlen_nonneg [of "(c - 1) div 2"] by (subst compute_bitlen) simp
  have e: "exponent x = - bitlen (c - 1)"
    using False by (simp add: exponent_def c_def y_def)
  have xy: "\<bar>x\<bar> = 1 / y"
    using assms by (simp add: y_def)
  have "y \<le> of_int c"
    by (simp add: c_def)
  also have "c \<le> 2 ^ nat (bitlen (c - 1))"
    using b(2) by simp
  then have "(of_int c :: real) \<le> of_int (2 ^ nat (bitlen (c - 1)))"
    by (simp only: of_int_le_iff)
  finally have u: "y \<le> 2 ^ nat (bitlen (c - 1))"
    by simp
  have "(of_int (2 ^ nat (bitlen (c - 1) - 1)) :: real) \<le> of_int (c - 1)"
    using b(1) by (simp only: of_int_le_iff)
  also have "of_int (c - 1) < y"
    unfolding c_def by linarith
  finally have lo: "2 ^ nat (bitlen (c - 1) - 1) < y"
    by simp
  have "(2 :: real) powi exponent x = 1 / 2 ^ nat (bitlen (c - 1))"
    using p by (simp add: e power_int_def field_simps)
  also have "\<dots> \<le> 1 / y"
    using u y by (simp add: frac_le)
  finally have l: "2 powi exponent x \<le> \<bar>x\<bar>"
    by (simp add: xy)
  have "\<bar>x\<bar> = 1 / y"
    by (rule xy)
  also have "\<dots> < 1 / 2 ^ nat (bitlen (c - 1) - 1)"
    using lo by (simp add: frac_less2)
  also have "\<dots> = 2 powi (exponent x + 1)"
    using p by (simp add: e power_int_def field_simps nat_diff_distrib)
  finally show ?thesis
    using l by simp
qed

lemmas round_eval =
  fround_def dround_def nearest_def exponent_def roundEven_def compute_bitlen Let_def

lemma dround_simps:
  "dround 0 = Finite 0" "dround 1 = Finite 1" "dround (1 / 2) = Finite (1 / 2)"
  by (simp_all add: round_eval)

lemma toFloat32_simps:
  "toFloat32 (Finite 0) = Finite 0" "toFloat32 (Finite 1) = Finite 1"
  by (simp_all add: round_eval)

lemma double_tenth:
  "dround (1 / 10) = Finite (3602879701896397 / 36028797018963968)"
  by (simp add: round_eval)

lemma toFloat32_tenth:
  "toFloat32 (dround (1 / 10)) = Finite (13421773 / 134217728)"
  unfolding double_tenth by (simp add: round_eval)

lemma toFloat32_quarters:
  "toFloat32 (Finite (1 / 4)) = Finite (1 / 4)" "toFloat32 (Finite (5 / 4)) = Finite (5 / 4)"
  by (simp_all add: round_eval)

subsection \<open>The texture coordinates of the quad\<close>

lemma targetDiff_equal_heights:
  assumes "height source = height target" and "height source \<noteq> 0"
  shows "targetDiff source target = Finite 0"
proof -
  have "jsDivide (height target) (height source) = Finite 1"
    using assms by (simp add: jsDivide_def dround_simps)
  then show ?thesis
    by (simp add: targetDiff_def jsMinus_def dround_simps)
qed

lemma targetDiff_192_64:
  "targetDiff (square 192) (square 64) = Finite (3002399751580331 / 4503599627370496)"
proof -
  have "jsDivide (height (square 64)) (height (square 192))
          = Finite (6004799503160661 / 18014398509481984)"
    by (simp add: jsDivide_def square_def RenderTarget_def round_eval)
  moreover have "dround (1 / 2 - 6004799503160661 / 18014398509481984)
          = Finite (3002399751580331 / 18014398509481984)"
    by (simp add: round_eval)
  moreover have "dround (1 / 2 + 3002399751580331 / 18014398509481984)
          = Finite (3002399751580331 / 4503599627370496)"
    by (simp add: round_eval)
  ultimately show ?thesis
    by (simp add: targetDiff_def jsMinus_def)
qed

lemma stored_192_64:
  "toFloat32 (Finite (3002399751580331 / 4503599627370496)) = Finite (11184811 / 16777216)"
  "jsPlus (Finite 1) (Finite (3002399751580331 / 4503599627370496))
     = Finite (7505999378950827 / 4503599627370496)"
  "toFloat32 (Finite (7505999378950827 / 4503599627370496)) = Finite (13981013 / 8388608)"
  by (simp_all add: round_eval)

lemma targetDiff_zero_heights:
  "targetDiff (square 0) (square 0) = NaN"
  by (simp add: targetDiff_def jsDivide_def jsMinus_def square_def RenderTarget_def)

lemma setUVs_view:
  assumes "quadVertexViewF32 p = Some v" and "length v = 42"
  shows "setUVs uA vA uB vB uC vC uD vD p =
           Inr (p \<lparr> quadVertexViewF32 :=
                   Some (v [2 := toFloat32 uA, 3 := toFloat32 vA, 9 := toFloat32 uB,
                            10 := toFloat32 vB, 16 := toFloat32 uC, 17 := toFloat32 vC,
                            23 := toFloat32 uA, 24 := toFloat32 vA, 30 := toFloat32 uC,
                            31 := toFloat32 vC, 37 := toFloat32 uD, 38 := toFloat32 vD]) \<rparr>)"
    and "map (vertexUV (v [2 := a, 3 := b, 9 := c, 10 := d, 16 := e, 17 := f,
                           23 := a, 24 := b, 30 := e, 31 := f, 37 := g, 38 := h])) [0 ..< 6]
           = [(a, b), (c, d), (e, f), (a, b), (e, f), (g, h)]"
proof -
  show "setUVs uA vA uB vB uC vC uD vD p =
           Inr (p \<lparr> quadVertexViewF32 :=
                   Some (v [2 := toFloat32 uA, 3 := toFloat32 vA, 9 := toFloat32 uB,
                            10 := toFloat32 vB, 16 := toFloat32 uC, 17 := toFloat32 vC,
                            23 := toFloat32 uA, 24 := toFloat32 vA, 30 := toFloat32 uC,
                            31 := toFloat32 vC, 37 := toFloat32 uD, 38 := toFloat32 vD]) \<rparr>)"
    using assms(1) by (simp add: setUVs_def)
  have six: "[0 ..< 6] = [0, 1, 2, 3, 4, 5 :: nat]"
    by (simp add: upt_rec)
  show "map (vertexUV (v [2 := a, 3 := b, 9 := c, 10 := d, 16 := e, 17 := f,
                           23 := a, 24 := b, 30 := e, 31 := f, 37 := g, 38 := h])) [0 ..< 6]
           = [(a, b), (c, d), (e, f), (a, b), (e, f), (g, h)]"
    unfolding six using assms(2)
    by (simp add: vertexUV_def del: add_2_eq_Suc add_2_eq_Suc')
qed

lemma booted_view_800_600:
  "\<exists>p. booted \<lparr> cfgFrameInc = None, cfgAltFrame = None \<rparr> 800 600 = Some p
     \<and> quadVertexViewF32 p =
         Some ((replicate 42 (Finite 0))
                 [1 := Finite 600, 22 := Finite 600, 14 := Finite 800, 28 := Finite 800,
                  35 := Finite 800, 36 := Finite 600])"
  by (simp add: boot_eval)

text \<open>
  C6, as stated, fails where an argument is not a single-precision number. The JavaScript
  number \<^verbatim>\<open>0.1\<close> is the double \<open>3602879701896397 / 2\<^sup>5\<^sup>5\<close>. On the booted pipeline of the
  default configuration, \<^verbatim>\<open>setUVs(0.1, 0, 0, 1, 1, 1, 1, 0)\<close> leaves vertex A with the
  texture coordinate \<open>13421773 / 2\<^sup>2\<^sup>7\<close> (0.10000000149011612), the single-precision
  number nearest to it, and not the number given: read back, the view does not reproduce
  the input exactly.
\<close>

theorem setUVs_rounds_counterexample:
  "map_option
     (readUV 0 \<circ> setUVs (dround (1 / 10)) (Finite 0) (Finite 0) (Finite 1)
                   (Finite 1) (Finite 1) (Finite 1) (Finite 0))
     (booted \<lparr> cfgFrameInc = None, cfgAltFrame = None \<rparr> 800 600)
     = Some (Some (Finite (13421773 / 134217728), Finite 0))
   \<and> dround (1 / 10) = Finite (3602879701896397 / 36028797018963968)
   \<and> Finite (13421773 / 134217728) \<noteq> dround (1 / 10)"
proof -
  from booted_view_800_600 obtain p where
    p: "booted \<lparr> cfgFrameInc = None, cfgAltFrame = None \<rparr> 800 600 = Some p" and
    v: "quadVertexViewF32 p =
         Some ((replicate 42 (Finite 0))
                 [1 := Finite 600, 22 := Finite 600, 14 := Finite 800, 28 := Finite 800,
                  35 := Finite 800, 36 := Finite 600])"
    by (elim exE conjE)
  have "readUV 0 (setUVs (dround (1 / 10)) (Finite 0) (Finite 0) (Finite 1)
                   (Finite 1) (Finite 1) (Finite 1) (Finite 0) p)
          = Some (Finite (13421773 / 134217728), Finite 0)"
    by (simp add: readUV_def setUVs_def v vertexUV_def toFloat32_tenth toFloat32_simps
          del: add_2_eq_Suc add_2_eq_Suc' toFloat32.simps)
  then show ?thesis
    by (simp add: p double_tenth)
qed

text \<open>
  C6, amended. On a pipeline with its quad vertex view of 42 elements, \<^verbatim>\<open>setUVs\<close>
  succeeds and changes the view only. Read back by vertex, the texture coordinates are the
  pairs A, B, C, A, C, D of the arguments, each rounded to single precision: vertex A's
  pair at both of its places, and C's. Arguments that are single-precision numbers read
  back as given. The position of every vertex is as before, and so is every element other
  than the twelve texture coordinates. \<^verbatim>\<open>resetUVs()\<close> is
  \<^verbatim>\<open>setUVs(0, 0, 0, 1, 1, 1, 1, 0)\<close>, and leaves the coordinates \<open>(0,0)\<close>, \<open>(0,1)\<close>,
  \<open>(1,1)\<close>, \<open>(0,0)\<close>, \<open>(1,1)\<close>, \<open>(1,0)\<close>.
\<close>

theorem setUVs_writes_uv_fields:
  assumes "quadVertexViewF32 p = Some v" and "length v = 42"
  shows "\<exists>v' v0.
             setUVs uA vA uB vB uC vC uD vD p = Inr (p \<lparr> quadVertexViewF32 := Some v' \<rparr>)
           \<and> length v' = 42
           \<and> map (vertexUV v') [0 ..< 6] =
               [(toFloat32 uA, toFloat32 vA), (toFloat32 uB, toFloat32 vB),
                (toFloat32 uC, toFloat32 vC), (toFloat32 uA, toFloat32 vA),
                (toFloat32 uC, toFloat32 vC), (toFloat32 uD, toFloat32 vD)]
           \<and> (list_all (\<lambda>x. toFloat32 x = x) [uA, vA, uB, vB, uC, vC, uD, vD]
                 \<longrightarrow> map (vertexUV v') [0 ..< 6] =
                       [(uA, vA), (uB, vB), (uC, vC), (uA, vA), (uC, vC), (uD, vD)])
           \<and> map (vertexPosition v') [0 ..< 6] = map (vertexPosition v) [0 ..< 6]
           \<and> (\<forall>j < 42. j \<notin> {2, 3, 9, 10, 16, 17, 23, 24, 30, 31, 37, 38} \<longrightarrow> v' ! j = v ! j)
           \<and> resetUVs p =
               setUVs (Finite 0) (Finite 0) (Finite 0) (Finite 1)
                 (Finite 1) (Finite 1) (Finite 1) (Finite 0) p
           \<and> resetUVs p = Inr (p \<lparr> quadVertexViewF32 := Some v0 \<rparr>)
           \<and> map (vertexUV v0) [0 ..< 6] =
               [(Finite 0, Finite 0), (Finite 0, Finite 1), (Finite 1, Finite 1),
                (Finite 0, Finite 0), (Finite 1, Finite 1), (Finite 1, Finite 0)]"
proof -
  let ?v = "v [2 := toFloat32 uA, 3 := toFloat32 vA, 9 := toFloat32 uB,
               10 := toFloat32 vB, 16 := toFloat32 uC, 17 := toFloat32 vC,
               23 := toFloat32 uA, 24 := toFloat32 vA, 30 := toFloat32 uC,
               31 := toFloat32 vC, 37 := toFloat32 uD, 38 := toFloat32 vD]"
  let ?z = "v [2 := Finite 0, 3 := Finite 0, 9 := Finite 0, 10 := Finite 1,
                16 := Finite 1, 17 := Finite 1, 23 := Finite 0, 24 := Finite 0,
                30 := Finite 1, 31 := Finite 1, 37 := Finite 1, 38 := Finite 0]"
  note s = setUVs_view(1) [OF assms, of uA vA uB vB uC vC uD vD]
  have uv: "map (vertexUV ?v) [0 ..< 6] =
               [(toFloat32 uA, toFloat32 vA), (toFloat32 uB, toFloat32 vB),
                (toFloat32 uC, toFloat32 vC), (toFloat32 uA, toFloat32 vA),
                (toFloat32 uC, toFloat32 vC), (toFloat32 uD, toFloat32 vD)]"
    by (rule setUVs_view(2) [OF assms])
  have ex: "list_all (\<lambda>x. toFloat32 x = x) [uA, vA, uB, vB, uC, vC, uD, vD]
              \<longrightarrow> map (vertexUV ?v) [0 ..< 6] =
                    [(uA, vA), (uB, vB), (uC, vC), (uA, vA), (uC, vC), (uD, vD)]"
    unfolding uv by simp
  have l: "length ?v = 42"
    using assms(2) by simp
  have six: "[0 ..< 6] = [0, 1, 2, 3, 4, 5 :: nat]"
    by (simp add: upt_rec)
  have pos: "map (vertexPosition ?v) [0 ..< 6] = map (vertexPosition v) [0 ..< 6]"
    unfolding six by (simp add: vertexPosition_def del: add_2_eq_Suc add_2_eq_Suc')
  have rest: "\<forall>j < 42. j \<notin> {2, 3, 9, 10, 16, 17, 23, 24, 30, 31, 37, 38} \<longrightarrow> ?v ! j = v ! j"
    by simp
  have r: "resetUVs p =
             setUVs (Finite 0) (Finite 0) (Finite 0) (Finite 1)
               (Finite 1) (Finite 1) (Finite 1) (Finite 0) p"
    by (simp add: resetUVs_def)
  have r0: "resetUVs p = Inr (p \<lparr> quadVertexViewF32 := Some ?z \<rparr>)"
    unfolding r
    using setUVs_view(1) [OF assms, of "Finite 0" "Finite 0" "Finite 0" "Finite 1"
                            "Finite 1" "Finite 1" "Finite 1" "Finite 0"]
    by (simp only: toFloat32_simps)
  have uv0: "map (vertexUV ?z) [0 ..< 6] =
               [(Finite 0, Finite 0), (Finite 0, Finite 1), (Finite 1, Finite 1),
                (Finite 0, Finite 0), (Finite 1, Finite 1), (Finite 1, Finite 0)]"
    by (rule setUVs_view(2) [OF assms])
  from s l uv ex pos rest r r0 uv0 show ?thesis
    by - (rule exI [of _ ?v], rule exI [of _ ?z], (intro conjI; assumption))
qed

text \<open>
  The booted pipeline of the default configuration on an 800 by 600 renderer. With the
  coordinates shifted by \<^verbatim>\<open>0.1\<close> and a quarter, the tenth reads back rounded to single
  precision and the quarters as given, over the positions of the 800 by 600 quad; with
  all of them in quarters, which are single-precision numbers, they read back as given.
\<close>

theorem setUVs_writes_uv_fields_witness:
  "\<exists>p. booted \<lparr> cfgFrameInc = None, cfgAltFrame = None \<rparr> 800 600 = Some p
     \<and> (\<exists>v v' v0. quadVertexViewF32 p = Some v \<and> length v = 42
          \<and> setUVs (dround (1/10)) (Finite (1/4)) (Finite 0) (Finite (5/4))
               (Finite 1) (Finite (5/4)) (Finite 1) (Finite (1/4)) p
              = Inr (p \<lparr> quadVertexViewF32 := Some v' \<rparr>)
          \<and> map (vertexUV v') [0 ..< 6]
               = [(Finite (13421773 / 134217728), Finite (1/4)), (Finite 0, Finite (5/4)),
                  (Finite 1, Finite (5/4)), (Finite (13421773 / 134217728), Finite (1/4)),
                  (Finite 1, Finite (5/4)), (Finite 1, Finite (1/4))]
          \<and> map (vertexPosition v') [0 ..< 6]
               = [(Finite 0, Finite 600), (Finite 0, Finite 0), (Finite 800, Finite 0),
                  (Finite 0, Finite 600), (Finite 800, Finite 0), (Finite 800, Finite 600)]
          \<and> resetUVs p = Inr (p \<lparr> quadVertexViewF32 := Some v0 \<rparr>)
          \<and> map (vertexUV v0) [0 ..< 6] =
               [(Finite 0, Finite 0), (Finite 0, Finite 1), (Finite 1, Finite 1),
                (Finite 0, Finite 0), (Finite 1, Finite 1), (Finite 1, Finite 0)])
     \<and> (\<exists>v'. list_all (\<lambda>x. toFloat32 x = x)
                [Finite 0, Finite (1/4), Finite 0, Finite (5/4),
                 Finite 1, Finite (5/4), Finite 1, Finite (1/4)]
          \<and> setUVs (Finite 0) (Finite (1/4)) (Finite 0) (Finite (5/4))
               (Finite 1) (Finite (5/4)) (Finite 1) (Finite (1/4)) p
              = Inr (p \<lparr> quadVertexViewF32 := Some v' \<rparr>)
          \<and> map (vertexUV v') [0 ..< 6]
               = [(Finite 0, Finite (1/4)), (Finite 0, Finite (5/4)), (Finite 1, Finite (5/4)),
                  (Finite 0, Finite (1/4)), (Finite 1, Finite (5/4)), (Finite 1, Finite (1/4))])"
proof -
  from booted_view_800_600 obtain p where
    p: "booted \<lparr> cfgFrameInc = None, cfgAltFrame = None \<rparr> 800 600 = Some p" and
    v: "quadVertexViewF32 p =
         Some ((replicate 42 (Finite 0))
                 [1 := Finite 600, 22 := Finite 600, 14 := Finite 800, 28 := Finite 800,
                  35 := Finite 800, 36 := Finite 600])"
    by (elim exE conjE)
  let ?v = "(replicate 42 (Finite 0))
                 [1 := Finite 600, 22 := Finite 600, 14 := Finite 800, 28 := Finite 800,
                  35 := Finite 800, 36 := Finite 600]"
  have l: "length ?v = 42"
    by simp
  have six: "[0 ..< 6] = [0, 1, 2, 3, 4, 5 :: nat]"
    by (simp add: upt_rec)
  have pos: "map (vertexPosition ?v) [0 ..< 6]
               = [(Finite 0, Finite 600), (Finite 0, Finite 0), (Finite 800, Finite 0),
                  (Finite 0, Finite 600), (Finite 800, Finite 0), (Finite 800, Finite 600)]"
    unfolding six by (simp add: vertexPosition_def del: add_2_eq_Suc add_2_eq_Suc')
  from setUVs_writes_uv_fields [OF v l, of "dround (1/10)" "Finite (1/4)" "Finite 0"
         "Finite (5/4)" "Finite 1" "Finite (5/4)" "Finite 1" "Finite (1/4)"]
  obtain v' v0 where
    s: "setUVs (dround (1/10)) (Finite (1/4)) (Finite 0) (Finite (5/4))
               (Finite 1) (Finite (5/4)) (Finite 1) (Finite (1/4)) p
              = Inr (p \<lparr> quadVertexViewF32 := Some v' \<rparr>)" and
    uv: "map (vertexUV v') [0 ..< 6] =
               [(toFloat32 (dround (1/10)), toFloat32 (Finite (1/4))),
                (toFloat32 (Finite 0), toFloat32 (Finite (5/4))),
                (toFloat32 (Finite 1), toFloat32 (Finite (5/4))),
                (toFloat32 (dround (1/10)), toFloat32 (Finite (1/4))),
                (toFloat32 (Finite 1), toFloat32 (Finite (5/4))),
                (toFloat32 (Finite 1), toFloat32 (Finite (1/4)))]" and
    ps: "map (vertexPosition v') [0 ..< 6] = map (vertexPosition ?v) [0 ..< 6]" and
    r: "resetUVs p = Inr (p \<lparr> quadVertexViewF32 := Some v0 \<rparr>)" and
    uv0: "map (vertexUV v0) [0 ..< 6] =
               [(Finite 0, Finite 0), (Finite 0, Finite 1), (Finite 1, Finite 1),
                (Finite 0, Finite 0), (Finite 1, Finite 1), (Finite 1, Finite 0)]"
    by (elim exE conjE)
  have uv': "map (vertexUV v') [0 ..< 6]
               = [(Finite (13421773 / 134217728), Finite (1/4)), (Finite 0, Finite (5/4)),
                  (Finite 1, Finite (5/4)), (Finite (13421773 / 134217728), Finite (1/4)),
                  (Finite 1, Finite (5/4)), (Finite 1, Finite (1/4))]"
    unfolding uv by (simp only: toFloat32_tenth toFloat32_quarters toFloat32_simps)
  have a: "\<exists>v v' v0. quadVertexViewF32 p = Some v \<and> length v = 42
          \<and> setUVs (dround (1/10)) (Finite (1/4)) (Finite 0) (Finite (5/4))
               (Finite 1) (Finite (5/4)) (Finite 1) (Finite (1/4)) p
              = Inr (p \<lparr> quadVertexViewF32 := Some v' \<rparr>)
          \<and> map (vertexUV v') [0 ..< 6]
               = [(Finite (13421773 / 134217728), Finite (1/4)), (Finite 0, Finite (5/4)),
                  (Finite 1, Finite (5/4)), (Finite (13421773 / 134217728), Finite (1/4)),
                  (Finite 1, Finite (5/4)), (Finite 1, Finite (1/4))]
          \<and> map (vertexPosition v') [0 ..< 6]
               = [(Finite 0, Finite 600), (Finite 0, Finite 0), (Finite 800, Finite 0),
                  (Finite 0, Finite 600), (Finite 800, Finite 0), (Finite 800, Finite 600)]
          \<and> resetUVs p = Inr (p \<lparr> quadVertexViewF32 := Some v0 \<rparr>)
          \<and> map (vertexUV v0) [0 ..< 6] =
               [(Finite 0, Finite 0), (Finite 0, Finite 1), (Finite 1, Finite 1),
                (Finite 0, Finite 0), (Finite 1, Finite 1), (Finite 1, Finite 0)]"
    using v l s uv' ps [unfolded pos] r uv0
    by - (rule exI [of _ ?v], rule exI [of _ v'], rule exI [of _ v0], (intro conjI; assumption))
  have q: "list_all (\<lambda>x. toFloat32 x = x)
                [Finite 0, Finite (1/4), Finite 0, Finite (5/4),
                 Finite 1, Finite (5/4), Finite 1, Finite (1/4)]"
    by (simp add: toFloat32_quarters toFloat32_simps del: toFloat32.simps)
  from setUVs_writes_uv_fields [OF v l, of "Finite 0" "Finite (1/4)" "Finite 0"
         "Finite (5/4)" "Finite 1" "Finite (5/4)" "Finite 1" "Finite (1/4)"]
  obtain w' w0 where
    s2: "setUVs (Finite 0) (Finite (1/4)) (Finite 0) (Finite (5/4))
               (Finite 1) (Finite (5/4)) (Finite 1) (Finite (1/4)) p
              = Inr (p \<lparr> quadVertexViewF32 := Some w' \<rparr>)" and
    i2: "list_all (\<lambda>x. toFloat32 x = x)
                [Finite 0, Finite (1/4), Finite 0, Finite (5/4),
                 Finite 1, Finite (5/4), Finite 1, Finite (1/4)]
          \<longrightarrow> map (vertexUV w') [0 ..< 6]
               = [(Finite 0, Finite (1/4)), (Finite 0, Finite (5/4)), (Finite 1, Finite (5/4)),
                  (Finite 0, Finite (1/4)), (Finite 1, Finite (5/4)), (Finite 1, Finite (1/4))]"
    by (elim exE conjE)
  have b: "\<exists>v'. list_all (\<lambda>x. toFloat32 x = x)
                [Finite 0, Finite (1/4), Finite 0, Finite (5/4),
                 Finite 1, Finite (5/4), Finite 1, Finite (1/4)]
          \<and> setUVs (Finite 0) (Finite (1/4)) (Finite 0) (Finite (5/4))
               (Finite 1) (Finite (5/4)) (Finite 1) (Finite (1/4)) p
              = Inr (p \<lparr> quadVertexViewF32 := Some v' \<rparr>)
          \<and> map (vertexUV v') [0 ..< 6]
               = [(Finite 0, Finite (1/4)), (Finite 0, Finite (5/4)), (Finite 1, Finite (5/4)),
                  (Finite 0, Finite (1/4)), (Finite 1, Finite (5/4)), (Finite 1, Finite (1/4))]"
    using q s2 mp [OF i2 q]
    by (intro exI [of _ w'] conjI)
  from p a b show ?thesis
    by (intro exI [of _ p] conjI)
qed

text \<open>
  C4, as stated, fails in two places. Between two targets of height zero the heights are
  equal, the quotient \<^verbatim>\<open>0 / 0\<close> is \<^verbatim>\<open>NaN\<close> and so is \<open>diff\<close>, not 0; the call returns
  normally and leaves \<^verbatim>\<open>NaN\<close> in the view, where \<^verbatim>\<open>resetUVs\<close> leaves 0. And from a source
  of height 192 to a target of height 64, \<open>diff\<close> is the double \<open>3002399751580331 / 2\<^sup>5\<^sup>2\<close>
  (0.6666666666666667), while the coordinate the view holds for vertex A is that number
  rounded to single precision, \<open>11184811 / 2\<^sup>2\<^sup>4\<close>: not \<open>diff\<close>.
\<close>

theorem setTargetUVs_diff_counterexample:
  "targetDiff (square 0) (square 0) = NaN
   \<and> height (square 0) = height (square 0)
   \<and> NaN \<noteq> Finite 0
   \<and> map_option (readUV 0 \<circ> setTargetUVs (square 0) (square 0))
        (booted \<lparr> cfgFrameInc = None, cfgAltFrame = None \<rparr> 800 600)
       = Some (Some (Finite 0, NaN))
   \<and> map_option (readUV 0 \<circ> resetUVs)
        (booted \<lparr> cfgFrameInc = None, cfgAltFrame = None \<rparr> 800 600)
       = Some (Some (Finite 0, Finite 0))
   \<and> targetDiff (square 192) (square 64) = Finite (3002399751580331 / 4503599627370496)
   \<and> map_option (readUV 0 \<circ> setTargetUVs (square 192) (square 64))
        (booted \<lparr> cfgFrameInc = None, cfgAltFrame = None \<rparr> 800 600)
       = Some (Some (Finite 0, Finite (11184811 / 16777216)))
   \<and> Finite (11184811 / 16777216) \<noteq> Finite (3002399751580331 / 4503599627370496)"
proof -
  from booted_view_800_600 obtain p where
    p: "booted \<lparr> cfgFrameInc = None, cfgAltFrame = None \<rparr> 800 600 = Some p" and
    v: "quadVertexViewF32 p =
         Some ((replicate 42 (Finite 0))
                 [1 := Finite 600, 22 := Finite 600, 14 := Finite 800, 28 := Finite 800,
                  35 := Finite 800, 36 := Finite 600])"
    by (elim exE conjE)
  have a: "readUV 0 (setTargetUVs (square 0) (square 0) p) = Some (Finite 0, NaN)"
    by (simp add: readUV_def setTargetUVs_def setUVs_def v vertexUV_def
          targetDiff_zero_heights toFloat32_simps
          del: add_2_eq_Suc add_2_eq_Suc' toFloat32.simps(1))
  have b: "readUV 0 (resetUVs p) = Some (Finite 0, Finite 0)"
    by (simp add: readUV_def resetUVs_def setUVs_def v vertexUV_def toFloat32_simps
          del: add_2_eq_Suc add_2_eq_Suc' toFloat32.simps(1))
  have c: "readUV 0 (setTargetUVs (square 192) (square 64) p)
             = Some (Finite 0, Finite (11184811 / 16777216))"
    by (simp add: readUV_def setTargetUVs_def setUVs_def v vertexUV_def
          targetDiff_192_64 stored_192_64 toFloat32_simps
          del: add_2_eq_Suc add_2_eq_Suc' toFloat32.simps(1) jsPlus.simps(1))
  show ?thesis
    using a b c by (simp add: p targetDiff_zero_heights targetDiff_192_64)
qed

text \<open>
  C4, amended. On a pipeline with its quad vertex view of 42 elements,
  \<^verbatim>\<open>setTargetUVs(source, target)\<close> succeeds, whatever the heights. With \<open>ratio\<close> the
  target's height over the source's, in the arithmetic of JavaScript, its \<open>diff\<close> is
  \<open>0.5 - (ratio - 0.5)\<close> when \<open>ratio > 0.5\<close> and \<open>0.5 + (0.5 - ratio)\<close> otherwise; it
  calls \<^verbatim>\<open>setUVs\<close> with \<open>(0, diff)\<close>, \<open>(0, 1 + diff)\<close>, \<open>(1, 1 + diff)\<close> for A, B, C
  and \<open>(1, diff)\<close> for D, and the texture coordinates the view then holds are these,
  rounded to single precision. \<open>diff\<close> depends on the two heights only: the same heights
  give the same \<open>diff\<close>. When the two heights are equal and not zero, \<open>diff\<close> is 0 and
  the call does what \<^verbatim>\<open>resetUVs\<close> does: there is no vertical shift.
\<close>

theorem setTargetUVs_diff:
  assumes "quadVertexViewF32 p = Some v" and "length v = 42"
  shows "\<exists>v'. setTargetUVs source target p = Inr (p \<lparr> quadVertexViewF32 := Some v' \<rparr>)
           \<and> setTargetUVs source target p =
               setUVs (Finite 0) (targetDiff source target)
                 (Finite 0) (jsPlus (Finite 1) (targetDiff source target))
                 (Finite 1) (jsPlus (Finite 1) (targetDiff source target))
                 (Finite 1) (targetDiff source target) p
           \<and> map (vertexUV v') [0 ..< 6] =
               [(Finite 0, toFloat32 (targetDiff source target)),
                (Finite 0, toFloat32 (jsPlus (Finite 1) (targetDiff source target))),
                (Finite 1, toFloat32 (jsPlus (Finite 1) (targetDiff source target))),
                (Finite 0, toFloat32 (targetDiff source target)),
                (Finite 1, toFloat32 (jsPlus (Finite 1) (targetDiff source target))),
                (Finite 1, toFloat32 (targetDiff source target))]
           \<and> targetDiff source target =
               (if jsGreater (jsDivide (height target) (height source)) (Finite 0.5)
                then jsMinus (Finite 0.5)
                       (jsMinus (jsDivide (height target) (height source)) (Finite 0.5))
                else jsPlus (Finite 0.5)
                       (jsMinus (Finite 0.5) (jsDivide (height target) (height source))))
           \<and> (\<forall>s2 t2. height s2 = height source \<and> height t2 = height target
                 \<longrightarrow> targetDiff s2 t2 = targetDiff source target)
           \<and> (height source = height target \<and> height source \<noteq> 0
                 \<longrightarrow> targetDiff source target = Finite 0
                     \<and> setTargetUVs source target p = resetUVs p)"
proof -
  let ?d = "targetDiff source target"
  let ?e = "jsPlus (Finite 1) (targetDiff source target)"
  define v' where "v' = v [2 := toFloat32 (Finite 0), 3 := toFloat32 ?d,
                            9 := toFloat32 (Finite 0), 10 := toFloat32 ?e,
                            16 := toFloat32 (Finite 1), 17 := toFloat32 ?e,
                            23 := toFloat32 (Finite 0), 24 := toFloat32 ?d,
                            30 := toFloat32 (Finite 1), 31 := toFloat32 ?e,
                            37 := toFloat32 (Finite 1), 38 := toFloat32 ?d]"
  have st0: "setTargetUVs source target p =
               setUVs (Finite 0) ?d (Finite 0) ?e (Finite 1) ?e (Finite 1) ?d p"
    by (simp add: setTargetUVs_def Let_def)
  have s: "setUVs (Finite 0) ?d (Finite 0) ?e (Finite 1) ?e (Finite 1) ?d p
             = Inr (p \<lparr> quadVertexViewF32 := Some v' \<rparr>)"
    unfolding v'_def by (rule setUVs_view(1) [OF assms(1,2)])
  have st: "setTargetUVs source target p = Inr (p \<lparr> quadVertexViewF32 := Some v' \<rparr>)"
    unfolding st0 by (rule s)
  have "map (vertexUV v') [0 ..< 6] =
           [(toFloat32 (Finite 0), toFloat32 ?d), (toFloat32 (Finite 0), toFloat32 ?e),
            (toFloat32 (Finite 1), toFloat32 ?e), (toFloat32 (Finite 0), toFloat32 ?d),
            (toFloat32 (Finite 1), toFloat32 ?e), (toFloat32 (Finite 1), toFloat32 ?d)]"
    unfolding v'_def by (rule setUVs_view(2) [OF assms(1,2)])
  then have uv: "map (vertexUV v') [0 ..< 6] =
           [(Finite 0, toFloat32 ?d), (Finite 0, toFloat32 ?e),
            (Finite 1, toFloat32 ?e), (Finite 0, toFloat32 ?d),
            (Finite 1, toFloat32 ?e), (Finite 1, toFloat32 ?d)]"
    by (simp only: toFloat32_simps)
  have f: "?d = (if jsGreater (jsDivide (height target) (height source)) (Finite 0.5)
                then jsMinus (Finite 0.5)
                       (jsMinus (jsDivide (height target) (height source)) (Finite 0.5))
                else jsPlus (Finite 0.5)
                       (jsMinus (Finite 0.5) (jsDivide (height target) (height source))))"
    by (simp add: targetDiff_def Let_def)
  have det: "\<forall>s2 t2. height s2 = height source \<and> height t2 = height target
                 \<longrightarrow> targetDiff s2 t2 = ?d"
    by (simp add: targetDiff_def)
  have eq: "height source = height target \<and> height source \<noteq> 0
              \<longrightarrow> ?d = Finite 0 \<and> setTargetUVs source target p = resetUVs p"
  proof (intro impI, elim conjE)
    assume h: "height source = height target" "height source \<noteq> 0"
    have d0: "?d = Finite 0"
      using h by (rule targetDiff_equal_heights)
    have "jsPlus (Finite 1) (Finite 0) = Finite 1"
      by (simp add: dround_simps)
    then have "setTargetUVs source target p = resetUVs p"
      unfolding st0 d0 resetUVs_def by (simp only:)
    with d0 show "?d = Finite 0 \<and> setTargetUVs source target p = resetUVs p"
      by (rule conjI)
  qed
  from st st0 uv f det eq show ?thesis
    by (intro exI [of _ v'] conjI)
qed

text \<open>
  From a source of height 192 to a target of height 64 on the booted pipeline of the
  default configuration: the quotient is the double nearest to a third, \<open>diff\<close> comes out
  as \<open>3002399751580331 / 2\<^sup>5\<^sup>2\<close>, and the view holds it rounded to single precision.
  Targets of other widths and the same two heights give the same \<open>diff\<close>. Between two
  targets of height 192 \<open>diff\<close> is zero.
\<close>

theorem setTargetUVs_diff_witness:
  "\<exists>p. booted \<lparr> cfgFrameInc = None, cfgAltFrame = None \<rparr> 800 600 = Some p
     \<and> (\<exists>v'. setTargetUVs (square 192) (square 64) p = Inr (p \<lparr> quadVertexViewF32 := Some v' \<rparr>)
          \<and> targetDiff (square 192) (square 64) = Finite (3002399751580331 / 4503599627370496)
          \<and> map (vertexUV v') [0 ..< 6]
               = [(Finite 0, Finite (11184811 / 16777216)), (Finite 0, Finite (13981013 / 8388608)),
                  (Finite 1, Finite (13981013 / 8388608)), (Finite 0, Finite (11184811 / 16777216)),
                  (Finite 1, Finite (13981013 / 8388608)), (Finite 1, Finite (11184811 / 16777216))])
     \<and> height (RenderTarget 300 192 None None None None) = height (square 192)
     \<and> height (RenderTarget 100 64 None None None None) = height (square 64)
     \<and> targetDiff (RenderTarget 300 192 None None None None)
           (RenderTarget 100 64 None None None None)
         = targetDiff (square 192) (square 64)
     \<and> height (square 192) = height (square 192) \<and> height (square 192) \<noteq> 0
     \<and> targetDiff (square 192) (square 192) = Finite 0
     \<and> setTargetUVs (square 192) (square 192) p = resetUVs p"
proof -
  from booted_view_800_600 obtain p where
    p: "booted \<lparr> cfgFrameInc = None, cfgAltFrame = None \<rparr> 800 600 = Some p" and
    v: "quadVertexViewF32 p =
         Some ((replicate 42 (Finite 0))
                 [1 := Finite 600, 22 := Finite 600, 14 := Finite 800, 28 := Finite 800,
                  35 := Finite 800, 36 := Finite 600])"
    by (elim exE conjE)
  let ?v = "(replicate 42 (Finite 0))
                 [1 := Finite 600, 22 := Finite 600, 14 := Finite 800, 28 := Finite 800,
                  35 := Finite 800, 36 := Finite 600]"
  have l: "length ?v = 42"
    by simp
  have hh: "height (square 192) = height (square 192) \<and> height (square 192) \<noteq> 0"
    by (simp add: square_def RenderTarget_def)
  note d = targetDiff_192_64
  from setTargetUVs_diff [OF v l, of "square 192" "square 64"]
  obtain v' where
    s: "setTargetUVs (square 192) (square 64) p = Inr (p \<lparr> quadVertexViewF32 := Some v' \<rparr>)" and
    uv: "map (vertexUV v') [0 ..< 6] =
               [(Finite 0, toFloat32 (targetDiff (square 192) (square 64))),
                (Finite 0, toFloat32 (jsPlus (Finite 1) (targetDiff (square 192) (square 64)))),
                (Finite 1, toFloat32 (jsPlus (Finite 1) (targetDiff (square 192) (square 64)))),
                (Finite 0, toFloat32 (targetDiff (square 192) (square 64))),
                (Finite 1, toFloat32 (jsPlus (Finite 1) (targetDiff (square 192) (square 64)))),
                (Finite 1, toFloat32 (targetDiff (square 192) (square 64)))]" and
    det: "\<forall>s2 t2. height s2 = height (square 192) \<and> height t2 = height (square 64)
            \<longrightarrow> targetDiff s2 t2 = targetDiff (square 192) (square 64)"
    by (elim exE conjE)
  have hs: "height (RenderTarget 300 192 None None None None) = height (square 192)"
    "height (RenderTarget 100 64 None None None None) = height (square 64)"
    by (simp_all add: square_def RenderTarget_def)
  from det hs
  have same: "targetDiff (RenderTarget 300 192 None None None None)
                (RenderTarget 100 64 None None None None)
              = targetDiff (square 192) (square 64)"
    by (elim allE impE) (rule conjI)
  have uv': "map (vertexUV v') [0 ..< 6]
               = [(Finite 0, Finite (11184811 / 16777216)), (Finite 0, Finite (13981013 / 8388608)),
                  (Finite 1, Finite (13981013 / 8388608)), (Finite 0, Finite (11184811 / 16777216)),
                  (Finite 1, Finite (13981013 / 8388608)), (Finite 1, Finite (11184811 / 16777216))]"
    unfolding uv d by (simp only: stored_192_64)
  from setTargetUVs_diff [OF v l, of "square 192" "square 192"]
  obtain w where
    "height (square 192) = height (square 192) \<and> height (square 192) \<noteq> 0
       \<longrightarrow> targetDiff (square 192) (square 192) = Finite 0
           \<and> setTargetUVs (square 192) (square 192) p = resetUVs p"
    by (elim exE conjE)
  from mp [OF this hh]
  have e: "targetDiff (square 192) (square 192) = Finite 0"
    "setTargetUVs (square 192) (square 192) p = resetUVs p"
    by (rule conjunct1, rule conjunct2)
  have a: "\<exists>v'. setTargetUVs (square 192) (square 64) p = Inr (p \<lparr> quadVertexViewF32 := Some v' \<rparr>)
          \<and> targetDiff (square 192) (square 64) = Finite (3002399751580331 / 4503599627370496)
          \<and> map (vertexUV v') [0 ..< 6]
               = [(Finite 0, Finite (11184811 / 16777216)), (Finite 0, Finite (13981013 / 8388608)),
                  (Finite 1, Finite (13981013 / 8388608)), (Finite 0, Finite (11184811 / 16777216)),
                  (Finite 1, Finite (13981013 / 8388608)), (Finite 1, Finite (11184811 / 16777216))]"
    using s d uv' by (intro exI [of _ v'] conjI)
  from p a hs same hh e show ?thesis
    by (intro exI [of _ p] conjI) simp_all
qed

subsection \<open>The positions of the quad\<close>


lemma quad_emits [simp]: "quadVertexViewF32 (emits cs p) = quadVertexViewF32 p"
  by (simp add: emits_def)

lemma quad_setShader [simp]: "quadVertexViewF32 (setShader sh p) = quadVertexViewF32 p"
  by (simp add: setShader_def)

lemma quad_bindAndDraw [simp]: "quadVertexViewF32 (bindAndDraw source p) = quadVertexViewF32 p"
  by (simp add: bindAndDraw_def Let_def)

lemma quad_drawToGame [simp]: "quadVertexViewF32 (drawToGame source p) = quadVertexViewF32 p"
  by (simp add: drawToGame_def)

lemma quad_copyToGame [simp]: "quadVertexViewF32 (copyToGame source p) = quadVertexViewF32 p"
  by (simp add: copyToGame_def)

lemma quad_getSpriteTarget [simp]:
  "quadVertexViewF32 (snd (getSpriteTarget sz p)) = quadVertexViewF32 p"
  by (simp add: getSpriteTarget_def Let_def)


lemma after_simps [simp]:
  "after (Inl (e, p)) = p" "after (Inr p) = p"
  by (simp_all add: after_def)


lemma quadOk_simps [simp]:
  "quadOk (emits cs p) = quadOk p"
  "quadOk (p \<lparr> currentShader := sh \<rparr>) = quadOk p"
  "quadOk (p \<lparr> renderer := r \<rparr>) = quadOk p"
  "quadOk (bindAndDraw source p) = quadOk p"
  "quadOk (drawToGame source p) = quadOk p"
  "quadOk (copyToGame source p) = quadOk p"
  "quadOk (snd (getSpriteTarget sz p)) = quadOk p"
  by (simp_all add: quadOk_def)







lemma quadOk_setBlendMode [simp]:
  "quadOk (p \<lparr> renderer := setBlendMode m (renderer p) \<rparr>) = quadOk p"
  by simp






subsection \<open>The blend mode in copySprite\<close>

lemma setUVs_outcome:
  "setUVs uA vA uB vB uC vC uD vD q = Inr q' \<Longrightarrow> renderer q' = renderer q"
  "setUVs uA vA uB vB uC vC uD vD q = Inl (e, q') \<Longrightarrow> q' = q"
  by (auto simp: setUVs_def split: option.splits)

lemma setTargetUVs_outcome:
  "setTargetUVs source target q = Inr q' \<Longrightarrow> renderer q' = renderer q"
  "setTargetUVs source target q = Inl (e, q') \<Longrightarrow> q' = q"
  by (auto simp: setTargetUVs_def Let_def dest: setUVs_outcome)

lemma resetUVs_outcome:
  "resetUVs q = Inr q' \<Longrightarrow> renderer q' = renderer q"
  "resetUVs q = Inl (e, q') \<Longrightarrow> q' = q"
  by (auto simp: resetUVs_def dest: setUVs_outcome)

text \<open>
  C5. Whatever the arguments and the pipeline, and so for a source or target of size zero as
  well: \<^verbatim>\<open>copySprite\<close> leaves the renderer's current blend mode as it found it, whether it
  returns or throws. When it returns, the calls it has issued end with the upload of the quad
  and the draw of its six vertices, followed by the unbinding of the framebuffer; with
  \<open>eraseMode\<close> set, the switch to \<open>ERASE\<close> comes directly before the upload and the
  switch back to the blend mode found comes directly after the draw, and no other call sets
  a blend mode; without \<open>eraseMode\<close> no call sets a blend mode at all. When it ends in an
  error (a throw for want of a shader, a sprite or the quad vertex view), that is before the
  draw, and no call has set a blend mode.
\<close>

theorem copySprite_blend_mode:
  "case copySprite source target clear clearAlpha eraseMode shader p of
     Inl (e, p') \<Rightarrow>
       currentBlendMode (renderer p') = currentBlendMode (renderer p)
       \<and> (\<exists>issued. calls (renderer p') = calls (renderer p) @ issued
             \<and> (\<forall>m. SetBlendMode m \<notin> set issued))
   | Inr p' \<Rightarrow>
       currentBlendMode (renderer p') = currentBlendMode (renderer p)
       \<and> (\<exists>before v. (\<forall>m. SetBlendMode m \<notin> set before)
             \<and> calls (renderer p') =
                 calls (renderer p) @ before
                 @ (if eraseMode = Some True then [SetBlendMode ERASE] else [])
                 @ [BufferData v, DrawArrays 0 6]
                 @ (if eraseMode = Some True
                    then [SetBlendMode (currentBlendMode (renderer p))] else [])
                 @ [BindFramebuffer None])"
proof -
  define cl where "cl = (case clear of None \<Rightarrow> True | Some b \<Rightarrow> b)"
  define ca where "ca = (case clearAlpha of None \<Rightarrow> True | Some b \<Rightarrow> b)"
  define er where "er = (case eraseMode of None \<Rightarrow> False | Some b \<Rightarrow> b)"
  define sh where "sh = (case shader of None \<Rightarrow> copyShader p | Some s \<Rightarrow> Some s)"
  define P1 where "P1 = emits [SetVertexBuffer] (p \<lparr> currentShader := sh \<rparr>)"
  define P2 where "P2 s = emits [ShaderBind s, Set1i ''uMainSampler'' 0] P1" for s
  define P3 where "P3 s g = emits
            [OnFXCopy g (spriteData (P2 s)),
             OnCopySprite source target g (spriteData (P2 s)),
             ActiveTexture 0,
             BindTexture (Some (TargetTexture source))] (P2 s)" for s g
  define R where "R s g =
     (if height source > height target then
        setTargetUVs source target (emits [Viewport 0 0 (width source) (height source)] (P3 s g))
      else
        resetUVs
          (emits [Viewport 0 (height target - height source) (width source) (height source)]
             (P3 s g)))" for s g
  define F1 where "F1 q = emits
            [BindFramebuffer (Some (TargetFramebuffer target)),
             FramebufferTexture2D (TargetTexture target)] q" for q
  define F2 where "F2 q =
     (if cl then emits [ClearColor 0 0 0 (if ca then 0 else 1), Clear] (F1 q) else F1 q)" for q
  define F3 where "F3 q =
     (if er then (F2 q) \<lparr> renderer := setBlendMode ERASE (renderer (F2 q)) \<rparr> else F2 q)" for q
  define F4 where "F4 q = emits
            [BufferData (case quadVertexViewF32 (F3 q) of None \<Rightarrow> [] | Some v \<Rightarrow> v),
             DrawArrays 0 6] (F3 q)" for q
  define F5 where "F5 q =
     (if er
      then (F4 q) \<lparr> renderer := setBlendMode (currentBlendMode (renderer (F2 q))) (renderer (F4 q)) \<rparr>
      else F4 q)" for q
  have U: "copySprite source target clear clearAlpha eraseMode shader p =
     (case sh of
        None \<Rightarrow> Inl (TypeError, P1)
      | Some s \<Rightarrow>
          (case sprite (spriteData p) of
             None \<Rightarrow> Inl (TypeError, P2 s)
           | Some g \<Rightarrow>
               (case R s g of
                  Inl e \<Rightarrow> Inl e
                | Inr q \<Rightarrow> Inr (emits [BindFramebuffer None] (F5 q)))))"
    unfolding copySprite_def Let_def cl_def ca_def er_def sh_def P1_def P2_def P3_def R_def
      F1_def F2_def F3_def F4_def F5_def
    by (rule refl)
  have c1: "calls (renderer P1) = calls (renderer p) @ [SetVertexBuffer]"
    and b1: "currentBlendMode (renderer P1) = currentBlendMode (renderer p)"
    by (simp_all add: P1_def emits_def)
  have c2: "calls (renderer (P2 s)) =
              calls (renderer p) @ [SetVertexBuffer, ShaderBind s, Set1i ''uMainSampler'' 0]"
    and b2: "currentBlendMode (renderer (P2 s)) = currentBlendMode (renderer p)" for s
    by (simp_all add: P2_def c1 b1 emits_def)
  define pre where "pre s g =
       [SetVertexBuffer, ShaderBind s, Set1i ''uMainSampler'' 0,
        OnFXCopy g (spriteData (P2 s)),
        OnCopySprite source target g (spriteData (P2 s)),
        ActiveTexture 0,
        BindTexture (Some (TargetTexture source)),
        Viewport 0 (if height source > height target then 0 else height target - height source)
          (width source) (height source)]" for s g
  have nb: "\<forall>m. SetBlendMode m \<notin> set (pre s g)" for s g
    by (simp add: pre_def)
  have RI: "R s g = Inl (e, q) \<Longrightarrow>
              calls (renderer q) = calls (renderer p) @ pre s g
              \<and> currentBlendMode (renderer q) = currentBlendMode (renderer p)" for s g e q
    by (auto simp: R_def P3_def pre_def c2 b2 emits_def
          dest!: setTargetUVs_outcome(2) resetUVs_outcome(2) split: if_splits)
  have RR: "R s g = Inr q \<Longrightarrow>
              calls (renderer q) = calls (renderer p) @ pre s g
              \<and> currentBlendMode (renderer q) = currentBlendMode (renderer p)" for s g q
    by (auto simp: R_def P3_def pre_def c2 b2 emits_def
          dest!: setTargetUVs_outcome(1) resetUVs_outcome(1) split: if_splits)
  define mid where "mid =
       [BindFramebuffer (Some (TargetFramebuffer target)),
        FramebufferTexture2D (TargetTexture target)]
       @ (if cl then [ClearColor 0 0 0 (if ca then 0 else 1), Clear] else [])"
  have nm: "\<forall>m. SetBlendMode m \<notin> set mid"
    by (simp add: mid_def)
  have c5: "calls (renderer (emits [BindFramebuffer None] (F5 q))) =
              calls (renderer q) @ mid
              @ (if er then [SetBlendMode ERASE] else [])
              @ [BufferData (case quadVertexViewF32 q of None \<Rightarrow> [] | Some v \<Rightarrow> v), DrawArrays 0 6]
              @ (if er then [SetBlendMode (currentBlendMode (renderer q))] else [])
              @ [BindFramebuffer None]"
    and b5: "currentBlendMode (renderer (emits [BindFramebuffer None] (F5 q)))
              = currentBlendMode (renderer q)" for q
    by (simp_all add: F5_def F4_def F3_def F2_def F1_def mid_def emits_def setBlendMode_def issue_def)
  have er: "er \<longleftrightarrow> eraseMode = Some True"
    by (cases eraseMode) (simp_all add: er_def)
  show ?thesis
  proof (cases sh)
    case None
    then show ?thesis
      using c1 b1 by (auto simp: U intro!: exI [of _ "[SetVertexBuffer]"])
  next
    case (Some s)
    note s = this
    show ?thesis
    proof (cases "sprite (spriteData p)")
      case None
      then show ?thesis
        using s c2 [of s] b2 [of s]
        by (auto simp: U intro!: exI [of _ "[SetVertexBuffer, ShaderBind s, Set1i ''uMainSampler'' 0]"])
    next
      case (Some g)
      note g = this
      show ?thesis
      proof (cases "R s g")
        case (Inl ep)
        obtain e q where ep: "ep = (e, q)"
          by (cases ep)
        from RI [OF Inl [unfolded ep]] nb [of s g] show ?thesis
          using s g Inl ep by (auto simp: U intro!: exI [of _ "pre s g"])
      next
        case (Inr q)
        note rr = RR [OF Inr]
        have "\<forall>m. SetBlendMode m \<notin> set (pre s g @ mid)"
          using nb [of s g] nm by simp
        moreover have "calls (renderer (emits [BindFramebuffer None] (F5 q))) =
                 calls (renderer p) @ (pre s g @ mid)
                 @ (if eraseMode = Some True then [SetBlendMode ERASE] else [])
                 @ [BufferData (case quadVertexViewF32 q of None \<Rightarrow> [] | Some v \<Rightarrow> v), DrawArrays 0 6]
                 @ (if eraseMode = Some True
                    then [SetBlendMode (currentBlendMode (renderer p))] else [])
                 @ [BindFramebuffer None]"
          using rr by (simp add: c5 er)
        moreover have "currentBlendMode (renderer (emits [BindFramebuffer None] (F5 q)))
                 = currentBlendMode (renderer p)"
          using rr by (simp add: b5)
        ultimately show ?thesis
          using s g Inr
          by (simp add: U)
      qed
    qed
  qed
qed

text \<open>
  An erasing copy from a source of size zero, on the booted pipeline of the default
  configuration while a sprite is being drawn: it returns, and the blend mode is the
  \<open>Mode 0\<close> it was.
\<close>

theorem copySprite_blend_mode_witness:
  "\<exists>p. map_option (\<lambda>q. q \<lparr> spriteData := (spriteData q) \<lparr> sprite := Some \<lparr> name = ''bird'', fxPadding = 10 \<rparr> \<rparr> \<rparr>)
          (booted \<lparr> cfgFrameInc = None, cfgAltFrame = None \<rparr> 800 600) = Some p
     \<and> (\<exists>p'. copySprite (square 0) (square 64) None None (Some True) None p = Inr p'
          \<and> currentBlendMode (renderer p) = Mode 0
          \<and> currentBlendMode (renderer p') = Mode 0
          \<and> (\<exists>before v. (\<forall>m. SetBlendMode m \<notin> set before)
               \<and> calls (renderer p') =
                   before @ [SetBlendMode ERASE, BufferData v, DrawArrays 0 6,
                             SetBlendMode (Mode 0), BindFramebuffer None]))"
proof -
  obtain p where p:
    "map_option (\<lambda>q. q \<lparr> spriteData := (spriteData q) \<lparr> sprite := Some \<lparr> name = ''bird'', fxPadding = 10 \<rparr> \<rparr> \<rparr>)
          (booted \<lparr> cfgFrameInc = None, cfgAltFrame = None \<rparr> 800 600) = Some p"
    and m: "currentBlendMode (renderer p) = Mode 0"
    and c: "calls (renderer p) = []"
    and ok: "\<exists>p'. copySprite (square 0) (square 64) None None (Some True) None p = Inr p'"
    by (simp add: boot_eval copySprite_def resetUVs_def setUVs_def emits_def)
  from ok obtain p' where
    cs: "copySprite (square 0) (square 64) None None (Some True) None p = Inr p'" ..
  from copySprite_blend_mode [where source = "square 0" and target = "square 64"
      and clear = None and clearAlpha = None and eraseMode = "Some True" and shader = None
      and p = p]
  have "currentBlendMode (renderer p') = currentBlendMode (renderer p)
       \<and> (\<exists>before v. (\<forall>m. SetBlendMode m \<notin> set before)
             \<and> calls (renderer p') =
                 calls (renderer p) @ before
                 @ (if Some True = Some True then [SetBlendMode ERASE] else [])
                 @ [BufferData v, DrawArrays 0 6]
                 @ (if Some True = Some True
                    then [SetBlendMode (currentBlendMode (renderer p))] else [])
                 @ [BindFramebuffer None])"
    unfolding cs by simp
  then have "currentBlendMode (renderer p') = Mode 0
          \<and> (\<exists>before v. (\<forall>m. SetBlendMode m \<notin> set before)
               \<and> calls (renderer p') =
                   before @ [SetBlendMode ERASE, BufferData v, DrawArrays 0 6,
                             SetBlendMode (Mode 0), BindFramebuffer None])"
    unfolding m c by simp
  with p m cs show ?thesis
    by (intro exI [of _ p] exI [of _ p'] conjI) simp_all
qed

subsection \<open>The sprite data during and after batchQuad\<close>

lemma getSpriteTarget_frame:
  "renderer (snd (getSpriteTarget sz p)) = renderer p"
  "fsTarget (snd (getSpriteTarget sz p)) = fsTarget p"
  "renderTargets (snd (getSpriteTarget sz p)) = renderTargets p"
  "copyShader (snd (getSpriteTarget sz p)) = copyShader p"
  "drawSpriteShader (snd (getSpriteTarget sz p)) = drawSpriteShader p"
  "targetBounds (snd (getSpriteTarget sz p)) = targetBounds p"
  "spriteBounds (snd (getSpriteTarget sz p)) = spriteBounds p"
  "spriteData (snd (getSpriteTarget sz p)) =
     (spriteData p) \<lparr> textureIndex := textureIndex (spriteData (snd (getSpriteTarget sz p))) \<rparr>"
  by (simp_all add: getSpriteTarget_def Let_def)

lemma getSpriteTarget_spriteBounds:
  "fst (getSpriteTarget sz (p \<lparr> spriteBounds := b \<rparr>)) = fst (getSpriteTarget sz p)"
  "textureIndex (spriteData (snd (getSpriteTarget sz (p \<lparr> spriteBounds := b \<rparr>))))
     = textureIndex (spriteData (snd (getSpriteTarget sz p)))"
  by (simp_all add: getSpriteTarget_def Let_def)

lemma proj_emits [simp]:
  "calls (renderer (emits cs p)) = calls (renderer p) @ cs"
  "rendererWidth (renderer (emits cs p)) = rendererWidth (renderer p)"
  "rendererHeight (renderer (emits cs p)) = rendererHeight (renderer p)"
  "currentFramebuffer (renderer (emits cs p)) = currentFramebuffer (renderer p)"
  "fboStack (renderer (emits cs p)) = fboStack (renderer p)"
  "spriteData (emits cs p) = spriteData p"
  "targetBounds (emits cs p) = targetBounds p"
  "fsTarget (emits cs p) = fsTarget p"
  "copyShader (emits cs p) = copyShader p"
  by (simp_all add: emits_def)

lemma proj_setShader [simp]:
  "calls (renderer (setShader sh p)) = calls (renderer p) @ [SetShader sh]"
  "rendererWidth (renderer (setShader sh p)) = rendererWidth (renderer p)"
  "rendererHeight (renderer (setShader sh p)) = rendererHeight (renderer p)"
  "currentFramebuffer (renderer (setShader sh p)) = currentFramebuffer (renderer p)"
  "fboStack (renderer (setShader sh p)) = fboStack (renderer p)"
  "spriteData (setShader sh p) = spriteData p"
  "targetBounds (setShader sh p) = targetBounds p"
  "fsTarget (setShader sh p) = fsTarget p"
  "copyShader (setShader sh p) = copyShader p"
  by (simp_all add: setShader_def emits_def)

lemma bindAndDraw_effect:
  "spriteData (bindAndDraw source p) = (spriteData p) \<lparr> sprite := None, texture := None \<rparr>"
  "targetBounds (bindAndDraw source p) = targetBounds p"
  "\<exists>cs. calls (renderer (bindAndDraw source p)) = calls (renderer p) @ cs
         \<and> filter isCallback cs = []"
  by (simp_all add: bindAndDraw_def Let_def popFramebuffer_def issue_def)

lemma onDraw_effect:
  "spriteData (onDraw target swap p) = (spriteData p) \<lparr> sprite := None, texture := None \<rparr>"
  "targetBounds (onDraw target swap p) = targetBounds p"
  "\<exists>cs. calls (renderer (onDraw target swap p)) = calls (renderer p) @ cs
         \<and> filter isCallback cs = []"
proof -
  let ?q = "setShader (copyShader p) (p \<lparr> currentShader := None \<rparr>)"
  show "spriteData (onDraw target swap p) = (spriteData p) \<lparr> sprite := None, texture := None \<rparr>"
    and "targetBounds (onDraw target swap p) = targetBounds p"
    by (simp_all add: onDraw_def drawToGame_def bindAndDraw_effect)
  from bindAndDraw_effect(3) [of target ?q] obtain cs where
    "calls (renderer (bindAndDraw target ?q)) = calls (renderer ?q) @ cs"
    "filter isCallback cs = []"
    by (elim exE conjE)
  then have "calls (renderer (onDraw target swap p)) = calls (renderer p) @ (SetShader (copyShader p) # cs)
         \<and> filter isCallback (SetShader (copyShader p) # cs) = []"
    by (simp add: onDraw_def drawToGame_def)
  then show "\<exists>cs. calls (renderer (onDraw target swap p)) = calls (renderer p) @ cs
         \<and> filter isCallback cs = []"
    by (rule exI)
qed

text \<open>
  What \<^verbatim>\<open>batchQuad\<close> comes to. It throws when \<^verbatim>\<open>getSpriteTarget\<close> finds no target for the
  size of the quad or the pipeline has no full-screen target; otherwise it returns \<open>true\<close>,
  having issued its calls with the three callbacks among them, each finding the sprite and
  the selected index in the sprite data, and leaves the sprite data without sprite and
  texture and the target bounds at the size of the target.
\<close>

lemma batchQuad_outcome:
  "(\<exists>q. batchQuad g x0 y0 x1 y1 x2 y2 x3 y3 u0 v0 u1 v1 tTL tTR tBL tBR tEffect tex p
            = Inl (TypeError, q)
        \<and> (fst (getSpriteTarget (effectiveSize g x0 y0 x1 y1 x2 y2 x3 y3) p) = None
             \<or> fsTarget p = None))
   \<or> (\<exists>p' target fs sd issued.
           batchQuad g x0 y0 x1 y1 x2 y2 x3 y3 u0 v0 u1 v1 tTL tTR tBL tBR tEffect tex p
             = Inr (True, p')
         \<and> fst (getSpriteTarget (effectiveSize g x0 y0 x1 y1 x2 y2 x3 y3) p) = Some target
         \<and> fsTarget p = Some fs
         \<and> sd = (spriteData p)
                  \<lparr> textureIndex :=
                      textureIndex (spriteData
                        (snd (getSpriteTarget (effectiveSize g x0 y0 x1 y1 x2 y2 x3 y3) p))),
                    sprite := Some g \<rparr>
         \<and> calls (renderer p') = calls (renderer p) @ issued
         \<and> filter isCallback issued = [OnDrawSprite g target sd, OnFX g sd, OnBatch g sd]
         \<and> spriteData p' = sd \<lparr> sprite := None, texture := None \<rparr>
         \<and> rectWidth (targetBounds p') = width target
         \<and> rectHeight (targetBounds p') = height target)"
  (is "?err \<or> ?ok")
proof -
  define sz where "sz = effectiveSize g x0 y0 x1 y1 x2 y2 x3 y3"
  define p0 where "p0 = p \<lparr> spriteBounds :=
      setTo (min (min x0 x1) (min x2 x3)) (min (min y0 y1) (min y2 y3))
        (max (max x0 x1) (max x2 x3) - min (min x0 x1) (min x2 x3))
        (max (max y0 y1) (max y2 y3) - min (min y0 y1) (min y2 y3)) (spriteBounds p) \<rparr>"
  obtain tg q where gs: "getSpriteTarget sz p0 = (tg, q)"
    by (cases "getSpriteTarget sz p0")
  have q: "q = snd (getSpriteTarget sz p0)" and tg: "tg = fst (getSpriteTarget sz p0)"
    using gs by simp_all
  define sd where "sd = (spriteData p)
       \<lparr> textureIndex := textureIndex (spriteData (snd (getSpriteTarget sz p))),
         sprite := Some g \<rparr>"
  have fr: "calls (renderer q) = calls (renderer p)" "fsTarget q = fsTarget p"
    "(spriteData q) \<lparr> sprite := Some g \<rparr> = sd"
    unfolding q sd_def
    using getSpriteTarget_frame(8) [of sz p0]
    by (simp_all add: getSpriteTarget_frame(1,2) p0_def getSpriteTarget_spriteBounds)
  have tg': "tg = fst (getSpriteTarget sz p)"
    unfolding tg p0_def by (rule getSpriteTarget_spriteBounds)
  define Q1 where "Q1 target = q \<lparr> targetBounds :=
        CenterOn (setTo 0 0 (width target) (height target) (targetBounds q))
          (centerX (spriteBounds q)) (centerY (spriteBounds q)) \<rparr>" for target :: renderTarget
  define Q2 where "Q2 target = (Q1 target) \<lparr> spriteData := (spriteData (Q1 target)) \<lparr> sprite := Some g \<rparr> \<rparr>"
    for target :: renderTarget
  define Q3 where "Q3 target = setShader (drawSpriteShader (Q2 target)) (Q2 target)" for target :: renderTarget
  define Q4 where "Q4 target = emits
       [Set1i ''uMainSampler'' 0,
        OnDrawSprite g target (spriteData (Q3 target)),
        OnFX g (spriteData (Q3 target)),
        SetTextureZero tex,
        Viewport 0 0 (rendererWidth (renderer (Q2 target))) (rendererHeight (renderer (Q2 target)))]
       (Q3 target)" for target :: renderTarget
  define Q5 where "Q5 target fs = emits
       [BindFramebuffer (Some (TargetFramebuffer fs)),
        FramebufferTexture2D (TargetTexture fs),
        ClearColor 0 0 0 0,
        Clear,
        BatchVert x0 y0 u0 v0 0 tEffect tTL,
        BatchVert x1 y1 u0 v1 0 tEffect tBL,
        BatchVert x2 y2 u1 v1 0 tEffect tBR,
        BatchVert x0 y0 u0 v0 0 tEffect tTL,
        BatchVert x2 y2 u1 v1 0 tEffect tBR,
        BatchVert x3 y3 u1 v0 0 tEffect tTR,
        Flush,
        ClearTextureZero,
        ActiveTexture 0,
        BindTexture (Some (TargetTexture target))] (Q4 target)" for target :: renderTarget and fs :: renderTarget
  define Q6 where "Q6 target fs = emits
       [CopyTexSubImage2D 0 0 (rectX (targetBounds (Q5 target fs)))
          (if height target = rendererHeight (renderer (Q2 target)) then 0
           else rendererHeight (renderer (Q2 target))
                  - (max (max y0 y1) (max y2 y3) + (fxPadding g * 2)))
          (min (rendererWidth (renderer (Q2 target))) (width target))
          (min (rendererHeight (renderer (Q2 target))) (height target)),
        BindFramebuffer None,
        BindTexture None,
        OnBatch g (spriteData (Q5 target fs))] (Q5 target fs)" for target :: renderTarget and fs :: renderTarget
  define Q7 where "Q7 target fs = (Q6 target fs) \<lparr> currentShader := copyShader (Q6 target fs) \<rparr>"
    for target :: renderTarget and fs :: renderTarget
  have U: "batchQuad g x0 y0 x1 y1 x2 y2 x3 y3 u0 v0 u1 v1 tTL tTR tBL tBR tEffect tex p =
     (case tg of
        None \<Rightarrow> Inl (TypeError, q)
      | Some target \<Rightarrow>
          (case fsTarget (Q4 target) of
             None \<Rightarrow> Inl (TypeError, Q4 target)
           | Some fs \<Rightarrow>
               Inr (True, onDraw target (getSwapTarget (Q7 target fs)) (Q7 target fs))))"
    unfolding batchQuad_def Let_def sz_def p0_def effectiveSize_def
      Q1_def Q2_def Q3_def Q4_def Q5_def Q6_def Q7_def
    using gs [unfolded sz_def p0_def effectiveSize_def]
    by (simp only: prod.case)
  show ?thesis
  proof (cases tg)
    case None
    then have "batchQuad g x0 y0 x1 y1 x2 y2 x3 y3 u0 v0 u1 v1 tTL tTR tBL tBR tEffect tex p
                 = Inl (TypeError, q)"
      by (simp add: U)
    moreover have "fst (getSpriteTarget sz p) = None"
      using None tg' by simp
    ultimately have ?err
      unfolding sz_def by (intro exI [of _ q] conjI disjI1)
    then show ?thesis ..
  next
    case (Some target)
    note t = this
    have s2: "spriteData (Q2 target) = sd"
      and c2: "calls (renderer (Q2 target)) = calls (renderer p)"
      and f2: "fsTarget (Q2 target) = fsTarget p"
      and b2: "rectWidth (targetBounds (Q2 target)) = width target"
        "rectHeight (targetBounds (Q2 target)) = height target"
      using fr by (simp_all add: Q2_def Q1_def CenterOn_def setTo_def)
    have s4: "spriteData (Q4 target) = sd"
      and c4: "calls (renderer (Q4 target)) = calls (renderer p) @
         [SetShader (drawSpriteShader (Q2 target)), Set1i ''uMainSampler'' 0,
          OnDrawSprite g target sd, OnFX g sd, SetTextureZero tex,
          Viewport 0 0 (rendererWidth (renderer (Q2 target))) (rendererHeight (renderer (Q2 target)))]"
      and f4: "fsTarget (Q4 target) = fsTarget p"
      and b4: "targetBounds (Q4 target) = targetBounds (Q2 target)"
      by (simp_all add: Q4_def Q3_def s2 c2 f2)
    show ?thesis
    proof (cases "fsTarget p")
      case None
      then have "batchQuad g x0 y0 x1 y1 x2 y2 x3 y3 u0 v0 u1 v1 tTL tTR tBL tBR tEffect tex p
                   = Inl (TypeError, Q4 target)"
        by (simp add: U t f4)
      with None have ?err
        by (intro exI [of _ "Q4 target"] conjI disjI2)
      then show ?thesis ..
    next
      case (Some fs)
      note f = this
      define p' where "p' = onDraw target (getSwapTarget (Q7 target fs)) (Q7 target fs)"
      have bq: "batchQuad g x0 y0 x1 y1 x2 y2 x3 y3 u0 v0 u1 v1 tTL tTR tBL tBR tEffect tex p
                  = Inr (True, p')"
        by (simp add: U t f4 f p'_def)
      define mid where "mid =
         [SetShader (drawSpriteShader (Q2 target)), Set1i ''uMainSampler'' 0,
          OnDrawSprite g target sd, OnFX g sd, SetTextureZero tex,
          Viewport 0 0 (rendererWidth (renderer (Q2 target))) (rendererHeight (renderer (Q2 target))),
          BindFramebuffer (Some (TargetFramebuffer fs)),
          FramebufferTexture2D (TargetTexture fs),
          ClearColor 0 0 0 0,
          Clear,
          BatchVert x0 y0 u0 v0 0 tEffect tTL,
          BatchVert x1 y1 u0 v1 0 tEffect tBL,
          BatchVert x2 y2 u1 v1 0 tEffect tBR,
          BatchVert x0 y0 u0 v0 0 tEffect tTL,
          BatchVert x2 y2 u1 v1 0 tEffect tBR,
          BatchVert x3 y3 u1 v0 0 tEffect tTR,
          Flush,
          ClearTextureZero,
          ActiveTexture 0,
          BindTexture (Some (TargetTexture target)),
          CopyTexSubImage2D 0 0 (rectX (targetBounds (Q5 target fs)))
            (if height target = rendererHeight (renderer (Q2 target)) then 0
             else rendererHeight (renderer (Q2 target))
                    - (max (max y0 y1) (max y2 y3) + (fxPadding g * 2)))
            (min (rendererWidth (renderer (Q2 target))) (width target))
            (min (rendererHeight (renderer (Q2 target))) (height target)),
          BindFramebuffer None,
          BindTexture None,
          OnBatch g sd]"
      have s7: "spriteData (Q7 target fs) = sd"
        and c7: "calls (renderer (Q7 target fs)) = calls (renderer p) @ mid"
        and b7: "targetBounds (Q7 target fs) = targetBounds (Q2 target)"
        by (simp_all add: Q7_def Q6_def Q5_def s4 c4 b4 mid_def)
      have fm: "filter isCallback mid = [OnDrawSprite g target sd, OnFX g sd, OnBatch g sd]"
        by (simp add: mid_def)
      from onDraw_effect(3) [of target "getSwapTarget (Q7 target fs)" "Q7 target fs"]
      obtain cs where cs: "calls (renderer p') = calls (renderer (Q7 target fs)) @ cs"
        and fc: "filter isCallback cs = []"
        unfolding p'_def by (elim exE conjE)
      have 1: "calls (renderer p') = calls (renderer p) @ (mid @ cs)"
        using cs c7 by simp
      have 2: "filter isCallback (mid @ cs) = [OnDrawSprite g target sd, OnFX g sd, OnBatch g sd]"
        using fm fc by simp
      have 3: "spriteData p' = sd \<lparr> sprite := None, texture := None \<rparr>"
        unfolding p'_def by (simp add: onDraw_effect(1) s7)
      have 4: "rectWidth (targetBounds p') = width target"
        "rectHeight (targetBounds p') = height target"
        unfolding p'_def by (simp_all add: onDraw_effect(2) b7 b2)
      have 5: "fst (getSpriteTarget sz p) = Some target"
        using t tg' by simp
      from bq 1 2 3 4 5 f have ?ok
        unfolding sz_def [symmetric] sd_def [symmetric]
        by (intro conjI exI [of _ p'] exI [of _ target] exI [of _ fs] exI [of _ sd]
              exI [of _ "mid @ cs"])
          simp_all
      then show ?thesis ..
    qed
  qed
qed


lemma booted_default_800_600:
  assumes "booted \<lparr> cfgFrameInc = Some 64, cfgAltFrame = None \<rparr> 800 600 = Some p"
  shows "fst (getSpriteTarget 150 p) = Some (square 192)"
    and "textureIndex (spriteData (snd (getSpriteTarget 150 p))) = 4"
    and "fsTarget p = Some (fullScreen (bootedRenderer 800 600))"
    and "bucketSizes p = [64, 128, 192, 256, 320, 384, 448, 512, 576]"
    and "elementAt (renderTargets p) 4 = Some (square 192)"
    and "calls (renderer p) = []"
  using assms
  by (auto simp: boot_eval getSpriteTarget_def elementAt_def SnapCeil_def bucketSizes_def)


text \<open>
  C3, as amended. With a viewport of 800 by 600 and increment 64, \<^verbatim>\<open>boot\<close> produces
  \<open>ceil(600/64) - 1 = 9\<close> size buckets, of sides 64 to 576, before the full-screen tier.
  A sprite draw whose quad has a bounding size of 130, with \<open>fxPadding\<close> 10, has the
  effective size 150 and selects bucket \<open>ceil(150/64) = 3\<close>: index 4 of the list, a 192 by
  192 target, which is also the size of the target bounds.
\<close>

theorem batchQuad_bucket_3:
  assumes "booted \<lparr> cfgFrameInc = Some 64, cfgAltFrame = None \<rparr> 800 600 = Some p"
    and "fxPadding g = 10"
    and "max (max (max x0 x1) (max x2 x3) - min (min x0 x1) (min x2 x3))
             (max (max y0 y1) (max y2 y3) - min (min y0 y1) (min y2 y3)) = 130"
  shows "bucketSizes p = [64, 128, 192, 256, 320, 384, 448, 512, 576]
       \<and> length (bucketSizes p) = 9
       \<and> effectiveSize g x0 y0 x1 y1 x2 y2 x3 y3 = 150
       \<and> SnapCeil 150 64 0 True = 3
       \<and> bucketSizes p ! (3 - 1) = 192
       \<and> (\<exists>p'. batchQuad g x0 y0 x1 y1 x2 y2 x3 y3 u0 v0 u1 v1 tTL tTR tBL tBR tEffect tex p
                  = Inr (True, p')
             \<and> textureIndex (spriteData p') = 4
             \<and> elementAt (renderTargets p) (textureIndex (spriteData p')) = Some (square 192)
             \<and> width (square 192) = 192 \<and> height (square 192) = 192
             \<and> rectWidth (targetBounds p') = 192
             \<and> rectHeight (targetBounds p') = 192)"
proof -
  note d = booted_default_800_600 [OF assms(1)]
  have "effectiveSize g x0 y0 x1 y1 x2 y2 x3 y3 =
          \<bar>max (max (max x0 x1) (max x2 x3) - min (min x0 x1) (min x2 x3))
               (max (max y0 y1) (max y2 y3) - min (min y0 y1) (min y2 y3)) + 20\<bar>"
    unfolding effectiveSize_def assms(2) by (simp add: max_add_distrib_left)
  then have sz: "effectiveSize g x0 y0 x1 y1 x2 y2 x3 y3 = 150"
    unfolding assms(3) by simp
  have sc: "SnapCeil 150 64 0 True = 3"
    by (simp add: SnapCeil_def)
  have sq: "width (square 192) = 192" "height (square 192) = 192"
    by (simp_all add: square_def RenderTarget_def)
  from batchQuad_outcome [of g x0 y0 x1 y1 x2 y2 x3 y3 u0 v0 u1 v1 tTL tTR tBL tBR tEffect tex p]
  obtain p' where
    bq: "batchQuad g x0 y0 x1 y1 x2 y2 x3 y3 u0 v0 u1 v1 tTL tTR tBL tBR tEffect tex p
           = Inr (True, p')" and
    s: "spriteData p' = (spriteData p)
          \<lparr> textureIndex := textureIndex (spriteData (snd (getSpriteTarget 150 p))),
            sprite := Some g \<rparr> \<lparr> sprite := None, texture := None \<rparr>" and
    w: "rectWidth (targetBounds p') = width (square 192)" and
    h: "rectHeight (targetBounds p') = height (square 192)"
    unfolding sz by (auto simp: d(1,3))
  have i: "textureIndex (spriteData p') = 4"
    unfolding s by (simp add: d(2))
  have "\<exists>p'. batchQuad g x0 y0 x1 y1 x2 y2 x3 y3 u0 v0 u1 v1 tTL tTR tBL tBR tEffect tex p
                  = Inr (True, p')
             \<and> textureIndex (spriteData p') = 4
             \<and> elementAt (renderTargets p) (textureIndex (spriteData p')) = Some (square 192)
             \<and> width (square 192) = 192 \<and> height (square 192) = 192
             \<and> rectWidth (targetBounds p') = 192
             \<and> rectHeight (targetBounds p') = 192"
    using bq i d(5) sq w h by (intro exI [of _ p'] conjI) simp_all
  then show ?thesis
    using d(4) sz sc by simp
qed

text \<open>
  C3 as the claim states it has 8 size buckets. \<open>ceil(600/64)\<close> is 10, so the claim's own
  expression \<open>ceil(600/64) - 1\<close> is 9, and 9 buckets is what \<^verbatim>\<open>boot\<close> makes.
\<close>

theorem bucket_count_counterexample:
  "map_option (length \<circ> bucketSizes)
       (booted \<lparr> cfgFrameInc = Some 64, cfgAltFrame = None \<rparr> 800 600) \<noteq> Some 8
   \<and> map_option (length \<circ> bucketSizes)
       (booted \<lparr> cfgFrameInc = Some 64, cfgAltFrame = None \<rparr> 800 600) = Some 9
   \<and> \<lceil>(600 :: real) / 64\<rceil> - 1 = 9"
proof -
  obtain p where p: "booted \<lparr> cfgFrameInc = Some 64, cfgAltFrame = None \<rparr> 800 600 = Some p"
    by (simp add: boot_eval)
  show ?thesis
    unfolding p using booted_default_800_600(4) [OF p] by simp
qed

text \<open>The quad with the corners \<open>(0,0)\<close>, \<open>(0,130)\<close>, \<open>(130,130)\<close>, \<open>(130,0)\<close>.\<close>

theorem batchQuad_bucket_3_witness:
  "\<exists>p. booted \<lparr> cfgFrameInc = Some 64, cfgAltFrame = None \<rparr> 800 600 = Some p
     \<and> fxPadding \<lparr> name = ''bird'', fxPadding = 10 \<rparr> = 10
     \<and> max (max (max 0 0) (max 130 130) - min (min 0 0) (min 130 130))
            (max (max 0 130) (max 130 0) - min (min 0 130) (min 130 0)) = (130 :: real)
     \<and> length (bucketSizes p) = 9
     \<and> (\<exists>p'. batchQuad \<lparr> name = ''bird'', fxPadding = 10 \<rparr> 0 0 0 130 130 130 130 0
                  0 0 1 1 16777215 16777215 16777215 16777215 0 (WebGLTexture 7) p
                = Inr (True, p')
           \<and> textureIndex (spriteData p') = 4
           \<and> rectWidth (targetBounds p') = 192
           \<and> rectHeight (targetBounds p') = 192)"
proof -
  obtain p where p: "booted \<lparr> cfgFrameInc = Some 64, cfgAltFrame = None \<rparr> 800 600 = Some p"
    by (simp add: boot_eval)
  have g: "fxPadding \<lparr> name = ''bird'', fxPadding = 10 \<rparr> = 10"
    by simp
  have q: "max (max (max 0 0) (max 130 130) - min (min 0 0) (min 130 130))
            (max (max 0 130) (max 130 0) - min (min 0 130) (min 130 0)) = (130 :: real)"
    by simp
  from batchQuad_bucket_3 [OF p g q, of 0 0 1 1 16777215 16777215 16777215 16777215 0 "WebGLTexture 7"]
  have "length (bucketSizes p) = 9
     \<and> (\<exists>p'. batchQuad \<lparr> name = ''bird'', fxPadding = 10 \<rparr> 0 0 0 130 130 130 130 0
                  0 0 1 1 16777215 16777215 16777215 16777215 0 (WebGLTexture 7) p
                = Inr (True, p')
           \<and> textureIndex (spriteData p') = 4
           \<and> rectWidth (targetBounds p') = 192
           \<and> rectHeight (targetBounds p') = 192)"
    by (elim conjE exE) (intro conjI exI, assumption+)
  then have r1: "length (bucketSizes p) = 9"
    and r2: "\<exists>p'. batchQuad \<lparr> name = ''bird'', fxPadding = 10 \<rparr> 0 0 0 130 130 130 130 0
                  0 0 1 1 16777215 16777215 16777215 16777215 0 (WebGLTexture 7) p
                = Inr (True, p')
           \<and> textureIndex (spriteData p') = 4
           \<and> rectWidth (targetBounds p') = 192
           \<and> rectHeight (targetBounds p') = 192"
    by (rule conjunct1, rule conjunct2)
  from p g q r1 r2 show ?thesis
    by - (rule exI [of _ p], (intro conjI; assumption))
qed


end
